theory Spec2Isabelle
  imports Main
begin

section \<open>Shared data: keys and errors\<close>

text \<open>
  A Go \<^verbatim>\<open>[]byte\<close> and a Go \<^verbatim>\<open>string\<close> are both byte sequences: lists of characters.
  An \<^verbatim>\<open>ssh.PublicKey\<close> is known to this package through two methods only, its algorithm
  name and its wire encoding; two keys are the same key when both agree.
\<close>

type_synonym bytes = string

datatype PublicKey = PublicKey (Type: string) (Marshal: bytes)

text \<open>
  A Go \<^verbatim>\<open>error\<close> is \<open>error option\<close>: \<open>None\<close> is \<^verbatim>\<open>nil\<close>. The package creates three errors
  of its own and hands all others through: the key error of the known-hosts package with its
  field \<^verbatim>\<open>Want\<close>, the two errors a cancellation signal reports, and whatever the operating
  system, the ssh transport or a line handler of the caller returns (\<open>Foreign\<close>, by message).
\<close>

datatype error =
    ErrNilSession
  | ErrNoAuthMethod
  | ErrNoAgent
  | KeyError (Want: "PublicKey list")
  | Canceled
  | DeadlineExceeded
  | Foreign string

text \<open>The line feed and the carriage return.\<close>

definition LF :: char where "LF = CHR 0x0A"
definition CR :: char where "CR = CHR 0x0D"

section \<open>Credential resolver (the file of \<^verbatim>\<open>Auth\<close>)\<close>

text \<open>
  \<^verbatim>\<open>Options\<close> of gosh.go. \<^verbatim>\<open>Timeout\<close> is a \<^verbatim>\<open>time.Duration\<close>, a count of nanoseconds.
\<close>

record Options =
  Username :: string
  Password :: string
  Key :: string
  KeyPassphrase :: string
  Addr :: string
  Port :: int
  UseAgent :: bool
  Timeout :: int

text \<open>
  What the resolver reads from outside the program: the environment variables, the unix
  socket of the agent (\<^verbatim>\<open>net.Dial\<close>), the key file (\<^verbatim>\<open>os.ReadFile\<close>) and the two parsers
  of the ssh library. They are parameters of the model; every theorem holds for all of them.
\<close>

datatype Signer = Signer string

datatype AuthMethod =
    PublicKeysCallback nat
  | PublicKeys Signer
  | PasswordAuth string

record Host =
  Getenv :: "string \<Rightarrow> string"
  net_Dial :: "string \<Rightarrow> string \<Rightarrow> error + nat"
  ReadFile :: "string \<Rightarrow> error + bytes"
  ParsePrivateKey :: "bytes \<Rightarrow> error + Signer"
  ParsePrivateKeyWithPassphrase :: "bytes \<Rightarrow> bytes \<Rightarrow> error + Signer"

definition HasAgent :: "Host \<Rightarrow> bool" where
  "HasAgent h = (Getenv h ''SSH_AUTH_SOCK'' \<noteq> '''')"

definition Agent :: "Host \<Rightarrow> error + AuthMethod" where
  "Agent h =
     (if HasAgent h
      then (case net_Dial h ''unix'' (Getenv h ''SSH_AUTH_SOCK'') of
              Inl e \<Rightarrow> Inl e
            | Inr sshAgent \<Rightarrow> Inr (PublicKeysCallback sshAgent))
      else Inl ErrNoAgent)"

text \<open>\<^verbatim>\<open>Password\<close> and \<^verbatim>\<open>Key\<close> of the source; the two names are taken by the fields of
  \<open>Options\<close>, so the functions carry the suffix \<open>Method\<close>.\<close>

definition PasswordMethod :: "string \<Rightarrow> AuthMethod" where
  "PasswordMethod pass = PasswordAuth pass"

definition GetSigner :: "Host \<Rightarrow> string \<Rightarrow> string \<Rightarrow> error + Signer" where
  "GetSigner h sshkey passphrase =
     (case ReadFile h sshkey of
        Inl e \<Rightarrow> Inl e
      | Inr data \<Rightarrow>
          (if passphrase = '''' then ParsePrivateKey h data
           else ParsePrivateKeyWithPassphrase h data passphrase))"

definition KeyMethod :: "Host \<Rightarrow> string \<Rightarrow> string \<Rightarrow> error + AuthMethod" where
  "KeyMethod h sshkey passphrase =
     (case GetSigner h sshkey passphrase of
        Inl e \<Rightarrow> Inl e
      | Inr signer \<Rightarrow> Inr (PublicKeys signer))"

text \<open>
  \<^verbatim>\<open>Auth\<close>: three guarded attempts in a fixed order. An attempt that is not made and an
  attempt that fails both fall through to the next one; \<open>Inl\<close> is the pair
  \<^verbatim>\<open>(nil, err)\<close>, \<open>Inr\<close> the pair \<^verbatim>\<open>(auth, nil)\<close>.
\<close>

definition Auth :: "Host \<Rightarrow> Options \<Rightarrow> error + AuthMethod" where
  "Auth h opt =
     (case (if UseAgent opt \<and> HasAgent h then Some (Agent h) else None) of
        Some (Inr a) \<Rightarrow> Inr a
      | _ \<Rightarrow>
        (case (if Key opt = '''' then None
               else Some (KeyMethod h (Key opt) (KeyPassphrase opt))) of
           Some (Inr a) \<Rightarrow> Inr a
         | _ \<Rightarrow>
           (if Password opt = '''' then Inl ErrNoAuthMethod
            else Inr (PasswordMethod (Password opt)))))"

section \<open>Connection manager (gosh.go)\<close>

text \<open>
  The handshake's host verification callback receives the host name, the remote socket
  address (a \<^verbatim>\<open>net.Addr\<close>, known through its \<^verbatim>\<open>String\<close> method) and the presented key, and
  returns an error or \<^verbatim>\<open>nil\<close>.
\<close>

type_synonym HostKeyCallback = "string \<Rightarrow> string \<Rightarrow> PublicKey \<Rightarrow> error option"

text \<open>\<^verbatim>\<open>ssh.ClientConfig\<close>, the four fields \<^verbatim>\<open>dial\<close> sets.\<close>

record ClientConfig =
  User :: string
  AuthMethods :: "AuthMethod list"
  ConfigTimeout :: int
  HostKeyCallback :: HostKeyCallback

text \<open>
  The ssh library, as far as the client calls it: \<^verbatim>\<open>ssh.Dial\<close> returns an error or a
  connection (a handle), and \<^verbatim>\<open>Close\<close> of a connection answers depending on how many
  times that connection has been closed before. Both are parameters.
\<close>

record Transport =
  ssh_Dial :: "string \<Rightarrow> string \<Rightarrow> ClientConfig \<Rightarrow> error + nat"
  ssh_Close :: "nat \<Rightarrow> nat \<Rightarrow> error option"

definition DefaultUsername :: string where "DefaultUsername = ''root''"
definition DefaultTimeout :: int where "DefaultTimeout = 20 * 1000000000"
definition DefaultPort :: int where "DefaultPort = 22"
definition DefaultProtocol :: string where "DefaultProtocol = ''tcp''"

definition NewOptions :: Options where
  "NewOptions =
     \<lparr>Username = DefaultUsername, Password = '''', Key = '''', KeyPassphrase = '''',
      Addr = '''', Port = DefaultPort, UseAgent = False, Timeout = DefaultTimeout\<rparr>"

text \<open>\<^verbatim>\<open>Client\<close>: the embedded \<^verbatim>\<open>*ssh.Client\<close> (\<open>None\<close> is \<^verbatim>\<open>nil\<close>) and the three fields.\<close>

record Client =
  ssh_Client :: "nat option"
  opts :: Options
  auth :: AuthMethod
  callback :: HostKeyCallback

definition New :: "Host \<Rightarrow> Options \<Rightarrow> error + Client" where
  "New h opt =
     (case Auth h opt of
        Inl err \<Rightarrow> Inl err
      | Inr a \<Rightarrow>
          Inr \<lparr>ssh_Client = None, opts = opt, auth = a,
               callback = (\<lambda>hostname remote key. None)\<rparr>)"

definition WithHostKeyCallback :: "Client \<Rightarrow> HostKeyCallback \<Rightarrow> Client" where
  "WithHostKeyCallback c cb = c\<lparr>callback := cb\<rparr>"

text \<open>\<^verbatim>\<open>ssh.InsecureIgnoreHostKey()\<close> of the ssh library accepts every key.\<close>

definition InsecureIgnoreHostKey :: HostKeyCallback where
  "InsecureIgnoreHostKey = (\<lambda>hostname remote key. None)"

definition NewInsecure :: "Host \<Rightarrow> Options \<Rightarrow> error + Client" where
  "NewInsecure h opt =
     (case New h opt of
        Inl err \<Rightarrow> Inl err
      | Inr cli \<Rightarrow> Inr (WithHostKeyCallback cli InsecureIgnoreHostKey))"

text \<open>\<^verbatim>\<open>strconv.Itoa\<close> and \<^verbatim>\<open>net.JoinHostPort\<close> of the standard library.\<close>

fun Itoa_nat :: "nat \<Rightarrow> string" where
  "Itoa_nat n =
     (if n < 10 then [''0123456789'' ! n]
      else Itoa_nat (n div 10) @ [''0123456789'' ! (n mod 10)])"

declare Itoa_nat.simps [simp del]

definition Itoa :: "int \<Rightarrow> string" where
  "Itoa i = (if i < 0 then CHR ''-'' # Itoa_nat (nat (- i)) else Itoa_nat (nat i))"

definition JoinHostPort :: "string \<Rightarrow> string \<Rightarrow> string" where
  "JoinHostPort host port =
     (if CHR '':'' \<in> set host then ''['' @ host @ '']:'' @ port
      else host @ '':'' @ port)"

text \<open>The configuration \<^verbatim>\<open>dial\<close> builds, and \<^verbatim>\<open>dial\<close> itself.\<close>

definition dial_ClientConfig :: "Client \<Rightarrow> ClientConfig" where
  "dial_ClientConfig c =
     \<lparr>User = Username (opts c), AuthMethods = [auth c],
      ConfigTimeout = Timeout (opts c), HostKeyCallback = callback c\<rparr>"

definition dial :: "Transport \<Rightarrow> Client \<Rightarrow> error + nat" where
  "dial T c =
     ssh_Dial T DefaultProtocol
       (JoinHostPort (Addr (opts c)) (Itoa (Port (opts c)))) (dial_ClientConfig c)"

text \<open>\<^verbatim>\<open>Dial\<close> stores the connection in the client; \<^verbatim>\<open>Ping\<close> is \<^verbatim>\<open>Dial\<close>.\<close>

definition Dial :: "Transport \<Rightarrow> Client \<Rightarrow> error option \<times> Client" where
  "Dial T c =
     (case dial T c of
        Inl err \<Rightarrow> (Some err, c)
      | Inr cli \<Rightarrow> (None, c\<lparr>ssh_Client := Some cli\<rparr>))"

definition Ping :: "Transport \<Rightarrow> Client \<Rightarrow> error option \<times> Client" where
  "Ping T c = Dial T c"

text \<open>
  \<^verbatim>\<open>Close\<close>. The third component counts the calls of \<^verbatim>\<open>Close\<close> the transport has received
  for the connection. The method assigns to no field: the client it leaves is the client it
  was called on, with the connection still in place.
\<close>

definition Close :: "Transport \<Rightarrow> Client \<Rightarrow> nat \<Rightarrow> error option \<times> Client \<times> nat" where
  "Close T c n =
     (case ssh_Client c of
        Some cli \<Rightarrow> (ssh_Close T cli n, c, Suc n)
      | None \<Rightarrow> (None, c, n))"

section \<open>Host trust store (knownhosts.go)\<close>

text \<open>
  The trust store is a text file. The disk is the part of the operating system the three
  functions touch: the home directory (\<^verbatim>\<open>os.UserHomeDir\<close>), the joining of two path elements
  (\<^verbatim>\<open>filepath.Join\<close> of the standard library, a parameter), the bytes of the files by path,
  and whether a path can be opened for appending and written to.
\<close>

record Disk =
  UserHomeDir :: "error + string"
  filepath_Join :: "string \<Rightarrow> string \<Rightarrow> string"
  files :: "string \<Rightarrow> bytes option"
  open_error :: "string \<Rightarrow> error option"
  write_error :: "string \<Rightarrow> error option"

text \<open>
  \<^verbatim>\<open>os.OpenFile\<close> with \<^verbatim>\<open>O_CREATE|O_WRONLY|O_APPEND\<close> creates an empty file where there is
  none; \<^verbatim>\<open>WriteString\<close> on the file it opens puts the bytes after the last byte of the file,
  whatever that byte is.
\<close>

definition OpenFile :: "Disk \<Rightarrow> string \<Rightarrow> error + Disk" where
  "OpenFile d name =
     (case open_error d name of
        Some err \<Rightarrow> Inl err
      | None \<Rightarrow>
          (case files d name of
             None \<Rightarrow> Inr (d\<lparr>files := (files d)(name := Some [])\<rparr>)
           | Some content \<Rightarrow> Inr d))"

definition WriteString :: "Disk \<Rightarrow> string \<Rightarrow> bytes \<Rightarrow> error option \<times> Disk" where
  "WriteString d name s =
     (case write_error d name of
        Some err \<Rightarrow> (Some err, d)
      | None \<Rightarrow>
          (None, d\<lparr>files := (files d)(name :=
                     Some ((case files d name of None \<Rightarrow> [] | Some content \<Rightarrow> content) @ s))\<rparr>))"

text \<open>
  The known-hosts package (\<^verbatim>\<open>golang.org/x/crypto/ssh/knownhosts\<close>) is a dependency whose
  code is not among the repository's files. The functions of knownhosts.go take it as a
  parameter: its normalization of an address (\<^verbatim>\<open>Normalize\<close>), the text of the line it writes
  for a record (\<^verbatim>\<open>Line\<close>), what its parser makes of one line of a file (a record, nothing for
  a blank line or a comment, or a rejection), and the check its callback makes of a host, a
  remote address and a key against the records of a file.
\<close>

datatype parsed = Entry (addresses: "string list") (entry_key: PublicKey) | Blank | Malformed

record Knownhosts =
  Normalize :: "string \<Rightarrow> string"
  knownhosts_Line :: "string list \<Rightarrow> PublicKey \<Rightarrow> bytes"
  parse_line :: "bytes \<Rightarrow> parsed"
  check :: "(string list \<times> PublicKey) list \<Rightarrow> HostKeyCallback"

text \<open>Modelled from the spec: the trust store file holds one line per host record. The
  lines of a file are the pieces between its line feeds; bytes after the last line feed are a
  line too.\<close>

fun split_on :: "char \<Rightarrow> bytes \<Rightarrow> bytes list" where
  "split_on c [] = [[]]"
| "split_on c (x # xs) =
     (if x = c then [] # split_on c xs
      else (case split_on c xs of
              [] \<Rightarrow> [[x]]
            | w # ws \<Rightarrow> (x # w) # ws))"

definition split_lines :: "bytes \<Rightarrow> bytes list" where
  "split_lines content =
     (if last (split_on LF content) = [] then butlast (split_on LF content)
      else split_on LF content)"

text \<open>Modelled from the spec: the records of the lines of a file, in order; the first
  rejected line fails the whole file.\<close>

fun collect :: "parsed list \<Rightarrow> error + (string list \<times> PublicKey) list" where
  "collect [] = Inr []"
| "collect (Malformed # ls) = Inl (Foreign ''knownhosts: line rejected'')"
| "collect (Blank # ls) = collect ls"
| "collect (Entry addrs key # ls) =
     (case collect ls of
        Inl err \<Rightarrow> Inl err
      | Inr db \<Rightarrow> Inr ((addrs, key) # db))"

text \<open>Modelled from the spec: \<^verbatim>\<open>knownhosts.New\<close> for one file. It fails when the file cannot
  be opened or a line is rejected, and gives the package's callback over the file's records
  otherwise.\<close>

definition knownhosts_New :: "Knownhosts \<Rightarrow> Disk \<Rightarrow> string \<Rightarrow> error + HostKeyCallback" where
  "knownhosts_New K d name =
     (case files d name of
        None \<Rightarrow> Inl (Foreign ''open: no such file or directory'')
      | Some content \<Rightarrow>
          (case collect (map (parse_line K) (split_lines content)) of
             Inl err \<Rightarrow> Inl err
           | Inr db \<Rightarrow> Inr (check K db)))"

text \<open>Modelled from the spec: the lookup of the package's callback. The keys known for a host
  are the keys of the records whose aliases include the normalized host name. The callback
  accepts when the presented key is among them; otherwise it returns the key error that
  carries them (none, when the alias is absent).\<close>

definition known_keys ::
  "(string \<Rightarrow> string) \<Rightarrow> (string list \<times> PublicKey) list \<Rightarrow> string \<Rightarrow> PublicKey list" where
  "known_keys N db hostname =
     map snd (filter (\<lambda>entry. N hostname \<in> set (fst entry)) db)"

definition hostKeyDB_check ::
  "(string \<Rightarrow> string) \<Rightarrow> (string list \<times> PublicKey) list \<Rightarrow> HostKeyCallback" where
  "hostKeyDB_check N db hostname remote key =
     (if key \<in> set (known_keys N db hostname) then None
      else Some (KeyError (known_keys N db hostname)))"

text \<open>The package with the lookup as the spec describes it; the normalization, the text of a
  line and the parser of a line stay parameters.\<close>

definition modelled ::
  "(string \<Rightarrow> string) \<Rightarrow> (string list \<Rightarrow> PublicKey \<Rightarrow> bytes) \<Rightarrow> (bytes \<Rightarrow> parsed) \<Rightarrow> Knownhosts" where
  "modelled N L P =
     \<lparr>Normalize = N, knownhosts_Line = L, parse_line = P, check = hostKeyDB_check N\<rparr>"

text \<open>The functions of knownhosts.go.\<close>

definition DefaultKnownHostsPath :: "Disk \<Rightarrow> error + string" where
  "DefaultKnownHostsPath d =
     (case UserHomeDir d of
        Inl err \<Rightarrow> Inl err
      | Inr home \<Rightarrow> Inr (filepath_Join d home ''.ssh/known_hosts''))"

definition DefaultHostKeyCallback :: "Knownhosts \<Rightarrow> Disk \<Rightarrow> error + HostKeyCallback" where
  "DefaultHostKeyCallback K d =
     (case DefaultKnownHostsPath d of
        Inl err \<Rightarrow> Inl err
      | Inr fpath \<Rightarrow> knownhosts_New K d fpath)"

definition VerifyKnownHost ::
  "Knownhosts \<Rightarrow> Disk \<Rightarrow> string \<Rightarrow> string \<Rightarrow> string \<Rightarrow> PublicKey \<Rightarrow> bool \<times> error option" where
  "VerifyKnownHost K d fpath host remote key =
     (case (if fpath = '''' then DefaultHostKeyCallback K d
            else knownhosts_New K d fpath) of
        Inl err \<Rightarrow> (False, Some err)
      | Inr cb \<Rightarrow>
          (case cb host remote key of
             None \<Rightarrow> (True, None)
           | Some (KeyError want) \<Rightarrow>
               (if 0 < length want then (True, Some (KeyError want)) else (False, None))
           | Some _ \<Rightarrow> (False, None)))"

definition AppendKnownHost ::
  "Knownhosts \<Rightarrow> Disk \<Rightarrow> string \<Rightarrow> string \<Rightarrow> string \<Rightarrow> PublicKey \<Rightarrow> error option \<times> Disk" where
  "AppendKnownHost K d fpath host remote key =
     (case (if fpath = '''' then DefaultKnownHostsPath d else Inr fpath) of
        Inl err \<Rightarrow> (Some err, d)
      | Inr f \<Rightarrow>
          (case OpenFile d f of
             Inl err \<Rightarrow> (Some err, d)
           | Inr d1 \<Rightarrow>
               (let remoteNormalized = Normalize K remote;
                    hostNormalized = Normalize K host;
                    addrs = (if hostNormalized = remoteNormalized then [remoteNormalized]
                             else [remoteNormalized, hostNormalized])
                in WriteString d1 f (knownhosts_Line K addrs key @ [LF]))))"

text \<open>
  \<^verbatim>\<open>AutoFixedHostKeyCallback\<close> works on the default file (the empty path). As a callback it
  returns an error only; the model returns the disk it leaves as well.
\<close>

definition AutoFixedHostKeyCallback ::
  "Knownhosts \<Rightarrow> Disk \<Rightarrow> string \<Rightarrow> string \<Rightarrow> PublicKey \<Rightarrow> error option \<times> Disk" where
  "AutoFixedHostKeyCallback K d host remote key =
     (case VerifyKnownHost K d '''' host remote key of
        (found, err) \<Rightarrow>
          (if found \<and> err \<noteq> None then (err, d)
           else if found \<and> err = None then (None, d)
           else AppendKnownHost K d '''' host remote key))"

text \<open>
  For the statements below: the path a call works on; the records of the file at that path
  (or why they cannot be had), as \<open>VerifyKnownHost\<close> loads them; and the addresses
  \<open>AppendKnownHost\<close> writes for a host and a remote address.
\<close>

definition store_path :: "Disk \<Rightarrow> string \<Rightarrow> error + string" where
  "store_path d fpath = (if fpath = '''' then DefaultKnownHostsPath d else Inr fpath)"

definition load_store ::
  "Knownhosts \<Rightarrow> Disk \<Rightarrow> string \<Rightarrow> error + (string list \<times> PublicKey) list" where
  "load_store K d fpath =
     (case store_path d fpath of
        Inl err \<Rightarrow> Inl err
      | Inr name \<Rightarrow>
          (case files d name of
             None \<Rightarrow> Inl (Foreign ''open: no such file or directory'')
           | Some content \<Rightarrow> collect (map (parse_line K) (split_lines content))))"



section \<open>Remote command (cmd.go)\<close>

text \<open>
  A \<^verbatim>\<open>Cmd\<close> holds an \<^verbatim>\<open>*ssh.Session\<close> and calls its methods. The session belongs to the ssh
  library and the remote host; the model keeps the list of the calls the session has received
  (the trace) and takes the session's behaviour as a parameter: what a call returns, given
  the calls received before it, and for the calls that wait for the remote process (\<^verbatim>\<open>Run\<close>,
  \<^verbatim>\<open>Output\<close>, \<^verbatim>\<open>CombinedOutput\<close>, \<^verbatim>\<open>Wait\<close>) the moment at which it returns, if it ever does.
  Moments are counted from the start of the operation.
\<close>

datatype call =
    Session_StdoutPipe
  | Session_Start string
  | Session_Run string
  | Session_Output string
  | Session_CombinedOutput string
  | Session_Wait
  | Session_Signal string
  | Session_Close

text \<open>
  The standard output of the remote process, as the pipe delivers it: the bytes, and how the
  stream ends: with an error of the reader (\<^verbatim>\<open>io.EOF\<close> at the regular end) or never, when the
  process neither writes nor exits.
\<close>

datatype stream_end = EndsWith error | Stalls

definition io_EOF :: error where "io_EOF = Foreign ''EOF''"

text \<open>When the goroutine of \<^verbatim>\<open>executeWithCtx\<close> makes its session call, relative to a
  signal sent on cancellation.\<close>

datatype goroutine_call = BeforeSignal | AfterSignal | AfterReturn

record Remote =
  reply :: "call list \<Rightarrow> call \<Rightarrow> bytes \<times> error option"
  completes :: "call list \<Rightarrow> call \<Rightarrow> nat option"
  stdout :: "call list \<Rightarrow> bytes \<times> stream_end"
  tie_takes_ctx :: bool
  goroutine :: goroutine_call

text \<open>
  A \<^verbatim>\<open>context.Context\<close>, as \<^verbatim>\<open>executeWithCtx\<close> uses it: the moment at which its \<^verbatim>\<open>Done\<close>
  channel is closed (if ever) and the error \<^verbatim>\<open>Err\<close> reports from then on.
\<close>

datatype Ctx = Ctx (Done: "nat option") (Err: error)

text \<open>What a call that may wait for ever gives: a result, or nothing.\<close>

datatype 'a outcome = Returns 'a | Blocks

type_synonym LoggingFunc = "bytes list \<Rightarrow> bytes \<Rightarrow> error option"

record Cmd =
  Path :: string
  Args :: "string list"
  session :: "nat option"
  ctx :: "Ctx option"

definition SIGINT :: string where "SIGINT = ''INT''"

definition newCommand :: "nat option \<Rightarrow> string \<Rightarrow> string list \<Rightarrow> Cmd" where
  "newCommand s name args = \<lparr>Path = name, Args = args, session = s, ctx = None\<rparr>"

text \<open>\<^verbatim>\<open>newCommandContext\<close> panics on a \<^verbatim>\<open>nil\<close> context; the model's argument is never \<^verbatim>\<open>nil\<close>.\<close>

definition newCommandContext :: "Ctx \<Rightarrow> nat option \<Rightarrow> string \<Rightarrow> string list \<Rightarrow> Cmd" where
  "newCommandContext cx s name args = (newCommand s name args)\<lparr>ctx := Some cx\<rparr>"

definition SetSession :: "Cmd \<Rightarrow> nat option \<Rightarrow> Cmd" where
  "SetSession c s = c\<lparr>session := s\<rparr>"

definition String :: "Cmd \<Rightarrow> string" where
  "String c = Path c @ concat (map (\<lambda>a. CHR '' '' # a) (Args c))"

text \<open>
  \<^verbatim>\<open>executeWithCtx\<close> starts the callback in a goroutine of its own and selects between the
  context's \<^verbatim>\<open>Done\<close> channel and the channel on which the goroutine delivers the callback's
  result. The select takes the channel that is ready first; when both become ready at the
  same moment Go chooses one at random (\<open>tie_takes_ctx\<close>); when neither ever is, it waits
  for ever. On \<^verbatim>\<open>Done\<close> it signals \<^verbatim>\<open>SIGINT\<close> and returns \<^verbatim>\<open>nil\<close> output with the context's
  error. When \<^verbatim>\<open>Done\<close> is taken the goroutine need not have run yet: its session call \<open>k\<close>
  reaches the session before the signal, after the signal, or only after the operation has
  returned, in which case it is not in the trace the operation returns (\<open>goroutine\<close>).
  \<open>completes R w k\<close> is the moment at which the callback started on trace \<open>w\<close> returns.
\<close>

definition signal_trace :: "Remote \<Rightarrow> call \<Rightarrow> call list" where
  "signal_trace R k =
     (case goroutine R of
        BeforeSignal \<Rightarrow> [k, Session_Signal SIGINT]
      | AfterSignal \<Rightarrow> [Session_Signal SIGINT, k]
      | AfterReturn \<Rightarrow> [Session_Signal SIGINT])"

definition executeWithCtx ::
  "Remote \<Rightarrow> Ctx \<Rightarrow> call \<Rightarrow> call list \<Rightarrow> (bytes \<times> error option) outcome \<times> call list" where
  "executeWithCtx R cx k w =
     (case (Done cx, completes R w k) of
        (None, None) \<Rightarrow> (Blocks, w @ [k])
      | (None, Some t) \<Rightarrow> (Returns (reply R w k), w @ [k])
      | (Some d, None) \<Rightarrow> (Returns ([], Some (Err cx)), w @ signal_trace R k)
      | (Some d, Some t) \<Rightarrow>
          (if d < t \<or> (d = t \<and> tie_takes_ctx R)
           then (Returns ([], Some (Err cx)), w @ signal_trace R k)
           else (Returns (reply R w k), w @ [k])))"

definition execute ::
  "Remote \<Rightarrow> Cmd \<Rightarrow> call \<Rightarrow> call list \<Rightarrow> (bytes \<times> error option) outcome \<times> call list" where
  "execute R c k w =
     (case ctx c of
        None \<Rightarrow>
          (case completes R w k of
             None \<Rightarrow> (Blocks, w @ [k])
           | Some t \<Rightarrow> (Returns (reply R w k), w @ [k]))
      | Some cx \<Rightarrow> executeWithCtx R cx k w)"

text \<open>
  The three operations that go through \<^verbatim>\<open>execute\<close>. Each returns its result, the \<^verbatim>\<open>Cmd\<close> as
  it leaves it, and the trace. The deferred \<^verbatim>\<open>Close\<close> of the session runs when the method
  returns. No method assigns to a field of the \<^verbatim>\<open>Cmd\<close>.
\<close>

definition CombinedOutput ::
  "Remote \<Rightarrow> Cmd \<Rightarrow> call list \<Rightarrow> (bytes \<times> error option) outcome \<times> Cmd \<times> call list" where
  "CombinedOutput R c w =
     (case session c of
        None \<Rightarrow> (Returns ([], Some ErrNilSession), c, w)
      | Some s \<Rightarrow>
          (case execute R c (Session_CombinedOutput (String c)) w of
             (Returns r, w1) \<Rightarrow> (Returns r, c, w1 @ [Session_Close])
           | (Blocks, w1) \<Rightarrow> (Blocks, c, w1)))"

definition Output ::
  "Remote \<Rightarrow> Cmd \<Rightarrow> call list \<Rightarrow> (bytes \<times> error option) outcome \<times> Cmd \<times> call list" where
  "Output R c w =
     (case session c of
        None \<Rightarrow> (Returns ([], Some ErrNilSession), c, w)
      | Some s \<Rightarrow>
          (case execute R c (Session_Output (String c)) w of
             (Returns r, w1) \<Rightarrow> (Returns r, c, w1 @ [Session_Close])
           | (Blocks, w1) \<Rightarrow> (Blocks, c, w1)))"

definition Run ::
  "Remote \<Rightarrow> Cmd \<Rightarrow> call list \<Rightarrow> error option outcome \<times> Cmd \<times> call list" where
  "Run R c w =
     (case session c of
        None \<Rightarrow> (Returns (Some ErrNilSession), c, w)
      | Some s \<Rightarrow>
          (case execute R c (Session_Run (String c)) w of
             (Returns r, w1) \<Rightarrow> (Returns (snd r), c, w1 @ [Session_Close])
           | (Blocks, w1) \<Rightarrow> (Blocks, c, w1)))"

definition Start :: "Remote \<Rightarrow> Cmd \<Rightarrow> call list \<Rightarrow> error option \<times> Cmd \<times> call list" where
  "Start R c w =
     (case session c of
        None \<Rightarrow> (Some ErrNilSession, c, w)
      | Some s \<Rightarrow>
          (snd (reply R w (Session_Start (String c))), c,
           w @ [Session_Start (String c), Session_Close]))"

text \<open>
  \<^verbatim>\<open>OutputPipe\<close> reads the pipe through \<^verbatim>\<open>bufio.NewReader\<close>, a reader of the standard library
  with a buffer of 4096 bytes, and calls its \<^verbatim>\<open>ReadLine\<close> in a loop. On the bytes \<open>s\<close> still
  to come, \<^verbatim>\<open>ReadLine\<close> returns
  \<^item> the bytes before the first line feed, without a carriage return that ends them, when the
    line feed is among the first 4096 bytes;
  \<^item> otherwise, when 4096 bytes or more are to come, the first 4096 of them with \<^verbatim>\<open>isPrefix\<close>
    set (a carriage return in the last place is held back for the next call);
  \<^item> otherwise what is left of the stream as a last line, or the stream's error when nothing
    is left; on a stream that stalls it does not return.
  The third component of \<open>Line\<close> is what is still to come after the call.
\<close>

definition defaultBufSize :: nat where "defaultBufSize = 4096"

datatype read = Line bytes bool bytes | Failed error | Hangs

definition ReadLine :: "stream_end \<Rightarrow> bytes \<Rightarrow> read" where
  "ReadLine e s =
     (if LF \<in> set (take defaultBufSize s)
      then (let line = takeWhile (\<lambda>b. b \<noteq> LF) s
            in Line (if line \<noteq> [] \<and> last line = CR then butlast line else line) False
                 (drop (Suc (length line)) s))
      else if defaultBufSize \<le> length s
      then (let line = take defaultBufSize s
            in if last line = CR
               then Line (butlast line) True (CR # drop defaultBufSize s)
               else Line line True (drop defaultBufSize s))
      else (case e of
              Stalls \<Rightarrow> Hangs
            | EndsWith err \<Rightarrow> if s = [] then Failed err else Line s False []))"

text \<open>
  The loop of \<^verbatim>\<open>OutputPipe\<close>: it stops at the first error of \<^verbatim>\<open>ReadLine\<close> and hands every
  other result to the handler, whatever \<^verbatim>\<open>isPrefix\<close> says. The handler is a closure of the
  caller: what it returns may depend on the lines it was given before (\<open>seen\<close>). The loop
  gives how it ended and the lines it handed over, in order.
\<close>

datatype loop_exit = StreamDone | HandlerFailed error | LoopHangs

function read_loop ::
  "LoggingFunc \<Rightarrow> stream_end \<Rightarrow> bytes list \<Rightarrow> bytes \<Rightarrow> loop_exit \<times> bytes list" where
  "read_loop fn e seen s =
     (case ReadLine e s of
        Failed rerr \<Rightarrow> (StreamDone, seen)
      | Hangs \<Rightarrow> (LoopHangs, seen)
      | Line line isPrefix rest \<Rightarrow>
          (case fn seen line of
             Some err \<Rightarrow> (HandlerFailed err, seen @ [line])
           | None \<Rightarrow> read_loop fn e (seen @ [line]) rest))"
  by pat_completeness auto
termination
proof (relation "measure (\<lambda>(fn, e, seen, s). length s)")
  show "wf (measure (\<lambda>(fn, e, seen, s). length s))"
    by simp
next
  fix fn :: LoggingFunc and e seen s line isPrefix rest
  assume r: "ReadLine e s = Line line isPrefix rest"
  have "length (takeWhile (\<lambda>b. b \<noteq> LF) s) < length s" if "LF \<in> set (take defaultBufSize s)"
  proof -
    from that have a: "LF \<in> set s"
      by (meson in_set_takeD)
    have "length (takeWhile (\<lambda>b. b \<noteq> LF) s) + length (dropWhile (\<lambda>b. b \<noteq> LF) s)
            = length s"
      by (metis length_append takeWhile_dropWhile_id)
    moreover have "dropWhile (\<lambda>b. b \<noteq> LF) s \<noteq> []"
      using a by (auto simp: dropWhile_eq_Nil_conv)
    ultimately show ?thesis
      by (cases "dropWhile (\<lambda>b. b \<noteq> LF) s") auto
  qed
  with r have "length rest < length s"
    by (auto simp: ReadLine_def Let_def defaultBufSize_def
        split: if_splits stream_end.splits)
  then show "((fn, e, seen @ [line], rest), (fn, e, seen, s))
               \<in> measure (\<lambda>(fn, e, seen, s). length s)"
    by simp
qed

declare read_loop.simps [simp del]

text \<open>
  \<^verbatim>\<open>OutputPipe\<close>. Beside the returned error, the \<^verbatim>\<open>Cmd\<close> and the trace, the model gives the
  lines handed to the handler. The context of the \<^verbatim>\<open>Cmd\<close> is not read.
\<close>

definition OutputPipe ::
  "Remote \<Rightarrow> Cmd \<Rightarrow> LoggingFunc \<Rightarrow> call list
     \<Rightarrow> error option outcome \<times> bytes list \<times> Cmd \<times> call list" where
  "OutputPipe R c fn w =
     (case session c of
        None \<Rightarrow> (Returns (Some ErrNilSession), [], c, w)
      | Some s \<Rightarrow>
          (case snd (reply R w Session_StdoutPipe) of
             Some err \<Rightarrow> (Returns (Some err), [], c, w @ [Session_StdoutPipe, Session_Close])
           | None \<Rightarrow>
               (let w1 = w @ [Session_StdoutPipe] in
                case snd (reply R w1 (Session_Start (String c))) of
                  Some err \<Rightarrow>
                    (Returns (Some err), [], c, w1 @ [Session_Start (String c), Session_Close])
                | None \<Rightarrow>
                    (let w2 = w1 @ [Session_Start (String c)] in
                     case read_loop fn (snd (stdout R w2)) [] (fst (stdout R w2)) of
                       (HandlerFailed err, seen) \<Rightarrow>
                         (Returns (Some err), seen, c, w2 @ [Session_Close])
                     | (LoopHangs, seen) \<Rightarrow> (Blocks, seen, c, w2)
                     | (StreamDone, seen) \<Rightarrow>
                         (case completes R w2 Session_Wait of
                            None \<Rightarrow> (Blocks, seen, c, w2 @ [Session_Wait])
                          | Some t \<Rightarrow>
                              (Returns (snd (reply R w2 Session_Wait)), seen, c,
                               w2 @ [Session_Wait, Session_Close]))))))"

text \<open>
  The five operations that use up the session, under one name, for statements about any of
  them.
\<close>

datatype operation = OpRun | OpOutput | OpCombinedOutput | OpStart | OpOutputPipe LoggingFunc

fun invoke ::
  "Remote \<Rightarrow> Cmd \<Rightarrow> operation \<Rightarrow> call list
     \<Rightarrow> (bytes \<times> error option) outcome \<times> Cmd \<times> call list" where
  "invoke R c OpRun w =
     (case Run R c w of
        (Returns err, c', w') \<Rightarrow> (Returns ([], err), c', w')
      | (Blocks, c', w') \<Rightarrow> (Blocks, c', w'))"
| "invoke R c OpOutput w = Output R c w"
| "invoke R c OpCombinedOutput w = CombinedOutput R c w"
| "invoke R c OpStart w =
     (case Start R c w of (err, c', w') \<Rightarrow> (Returns ([], err), c', w'))"
| "invoke R c (OpOutputPipe fn) w =
     (case OutputPipe R c fn w of
        (Returns err, seen, c', w') \<Rightarrow> (Returns ([], err), c', w')
      | (Blocks, seen, c', w') \<Rightarrow> (Blocks, c', w'))"

text \<open>
  For the statements about a call made through \<^verbatim>\<open>execute\<close>: the context's \<^verbatim>\<open>Done\<close> channel
  is taken by the select (it is closed before the session call \<open>k\<close>, made on trace \<open>w\<close>,
  returns, or the call never returns, or both happen at one moment and the select chooses
  \<^verbatim>\<open>Done\<close>); and the other case in which \<^verbatim>\<open>execute\<close> returns: the call returns and no
  context is taken before it.
\<close>

definition done_first :: "Ctx \<Rightarrow> Remote \<Rightarrow> call list \<Rightarrow> call \<Rightarrow> bool" where
  "done_first cx R w k =
     (case (Done cx, completes R w k) of
        (Some d, None) \<Rightarrow> True
      | (Some d, Some t) \<Rightarrow> d < t \<or> (d = t \<and> tie_takes_ctx R)
      | (None, x) \<Rightarrow> False)"

definition call_first :: "Cmd \<Rightarrow> Remote \<Rightarrow> call list \<Rightarrow> call \<Rightarrow> bool" where
  "call_first c R w k =
     (case completes R w k of
        None \<Rightarrow> False
      | Some t \<Rightarrow> (case ctx c of None \<Rightarrow> True | Some cx \<Rightarrow> \<not> done_first cx R w k))"

text \<open>
  For the statement about lines that fit the buffer: the bytes a list of lines makes on the
  wire (each line followed by a line feed), the line as \<^verbatim>\<open>ReadLine\<close> returns it (without a
  final carriage return), the lines that fit (no line feed inside, shorter than the buffer),
  and the delivery of whole lines to the handler, one call per line, in order, up to the first
  error of the handler.
\<close>

definition wire :: "bytes list \<Rightarrow> bytes" where
  "wire ls = concat (map (\<lambda>l. l @ [LF]) ls)"

definition chomp :: "bytes \<Rightarrow> bytes" where
  "chomp l = (if l \<noteq> [] \<and> last l = CR then butlast l else l)"

definition fits :: "bytes \<Rightarrow> bool" where
  "fits l = (LF \<notin> set l \<and> length l < defaultBufSize)"

fun deliver :: "LoggingFunc \<Rightarrow> bytes list \<Rightarrow> bytes list \<Rightarrow> loop_exit \<times> bytes list" where
  "deliver fn seen [] = (StreamDone, seen)"
| "deliver fn seen (l # ls) =
     (case fn seen l of
        Some err \<Rightarrow> (HandlerFailed err, seen @ [l])
      | None \<Rightarrow> deliver fn (seen @ [l]) ls)"

section \<open>Sample inputs\<close>

text \<open>A host without an agent, on which every key file is unreadable; and one whose agent
  answers on its socket.\<close>

definition bare_host :: Host where
  "bare_host =
     \<lparr>Getenv = (\<lambda>name. ''''),
      net_Dial = (\<lambda>network address. Inl (Foreign ''dial unix: no such file or directory'')),
      ReadFile = (\<lambda>name. Inl (Foreign ''open: no such file or directory'')),
      ParsePrivateKey = (\<lambda>data. Inl (Foreign ''ssh: no key found'')),
      ParsePrivateKeyWithPassphrase = (\<lambda>data pass. Inl (Foreign ''ssh: no key found''))\<rparr>"

definition agent_host :: Host where
  "agent_host =
     bare_host\<lparr>Getenv := (\<lambda>name. if name = ''SSH_AUTH_SOCK'' then ''/tmp/agent.sock'' else ''''),
               net_Dial := (\<lambda>network address. Inr 7)\<rparr>"

definition no_credentials :: Options where
  "no_credentials =
     \<lparr>Username = ''root'', Password = '''', Key = '''', KeyPassphrase = '''',
      Addr = ''10.0.0.1'', Port = 22, UseAgent = True, Timeout = 20000000000\<rparr>"

definition bad_key_and_password :: Options where
  "bad_key_and_password =
     no_credentials\<lparr>Password := ''secret'', Key := ''/root/.ssh/missing'', UseAgent := False\<rparr>"

definition agent_bad_key_and_password :: Options where
  "agent_bad_key_and_password = bad_key_and_password\<lparr>UseAgent := True\<rparr>"

text \<open>A transport whose connections close once: a second \<^verbatim>\<open>Close\<close> of the same connection
  reports that the connection is closed already, as a network connection does.\<close>

definition tcp_transport :: Transport where
  "tcp_transport =
     \<lparr>ssh_Dial = (\<lambda>network address config. Inr 1),
      ssh_Close = (\<lambda>cli earlier. if earlier = 0 then None
                                   else Some (Foreign ''use of closed network connection''))\<rparr>"

definition password_options :: Options where
  "password_options = NewOptions\<lparr>Password := ''secret'', Addr := ''10.0.0.1''\<rparr>"

definition password_client :: Client where
  "password_client =
     \<lparr>ssh_Client = None, opts = password_options, auth = PasswordAuth ''secret'',
      callback = (\<lambda>hostname remote key. None)\<rparr>"

definition dialed_client :: Client where
  "dialed_client = password_client\<lparr>ssh_Client := Some 1\<rparr>"

text \<open>
  A sample of the known-hosts package, with the lookup as the spec describes it: the
  normalizer drops the default port; the line of a record is its addresses, joined by commas,
  the key's algorithm and the key's encoding, separated by blanks; the parser of a line reads
  that form back, takes an empty line and a line that starts with \<open>#\<close> for nothing, and
  rejects a line of fewer than three fields or with a byte in the third field that no key
  encoding has.
\<close>

definition sample_Normalize :: "string \<Rightarrow> string" where
  "sample_Normalize a =
     (if 3 \<le> length a \<and> drop (length a - 3) a = '':22'' then take (length a - 3) a else a)"

fun join_commas :: "string list \<Rightarrow> string" where
  "join_commas [] = []"
| "join_commas [a] = a"
| "join_commas (a # b # bs) = a @ '','' @ join_commas (b # bs)"

definition sample_Line :: "string list \<Rightarrow> PublicKey \<Rightarrow> bytes" where
  "sample_Line addrs key = join_commas addrs @ '' '' @ Type key @ '' '' @ Marshal key"

definition key_byte :: "char \<Rightarrow> bool" where
  "key_byte c =
     (c \<in> set ''ABCDEFGHIJKLMNOPQRSTUVWXYZabcdefghijklmnopqrstuvwxyz0123456789+/=-'')"

definition sample_parse_line :: "bytes \<Rightarrow> parsed" where
  "sample_parse_line l =
     (if l = [] \<or> hd l = CHR ''#'' then Blank
      else (case split_on (CHR '' '') l of
              hosts # algorithm # blob # comment \<Rightarrow>
                (if blob \<noteq> [] \<and> list_all key_byte blob
                 then Entry (split_on (CHR '','') hosts) (PublicKey algorithm blob)
                 else Malformed)
            | _ \<Rightarrow> Malformed))"

definition sample_package :: Knownhosts where
  "sample_package = modelled sample_Normalize sample_Line sample_parse_line"

text \<open>
  Two keys of one algorithm, and four disks: one without a trust store; one whose store
  knows \<open>example.com\<close> under the first key; one whose store holds a line the parser
  rejects; one whose store holds a record for another host in a last line without a line
  feed.
\<close>

definition key1 :: PublicKey where "key1 = PublicKey ''ssh-ed25519'' ''AAAA-first''"
definition key2 :: PublicKey where "key2 = PublicKey ''ssh-ed25519'' ''AAAA-second''"

definition fresh_disk :: Disk where
  "fresh_disk =
     \<lparr>UserHomeDir = Inr ''/root'', filepath_Join = (\<lambda>a b. a @ ''/'' @ b),
      files = (\<lambda>name. None), open_error = (\<lambda>name. None), write_error = (\<lambda>name. None)\<rparr>"

definition seeded_disk :: Disk where
  "seeded_disk =
     fresh_disk\<lparr>files := (\<lambda>name. if name = ''/root/.ssh/known_hosts''
                                  then Some (''example.com ssh-ed25519 AAAA-first'' @ [LF])
                                  else None)\<rparr>"

definition damaged_disk :: Disk where
  "damaged_disk =
     fresh_disk\<lparr>files := (\<lambda>name. if name = ''/root/.ssh/known_hosts''
                                  then Some (''example.com ssh-dss'' @ [LF]) else None)\<rparr>"

definition unterminated_disk :: Disk where
  "unterminated_disk =
     fresh_disk\<lparr>files := (\<lambda>name. if name = ''/root/.ssh/known_hosts''
                                  then Some ''other.org ssh-ed25519 AAAA-other'' else None)\<rparr>"

text \<open>
  A session that runs \<^verbatim>\<open>echo\<close> once and refuses to be used again, as a session of the ssh
  library does; a session whose process prints four lines; one whose process never ends; one
  whose process prints a single line of 5000 bytes. And commands on them: one with a session,
  one without, one with a context that is cancelled from the start, one with a deadline.
\<close>

definition hello :: bytes where "hello = ''Hello, world!'' @ [LF]"

definition hello_remote :: Remote where
  "hello_remote =
     \<lparr>reply = (\<lambda>w k. case k of
                  Session_Output cmd \<Rightarrow>
                    (if w = [] then (hello, None)
                     else ([], Some (Foreign ''ssh: Stdout already set'')))
                | Session_Close \<Rightarrow> ([], None)
                | _ \<Rightarrow> (if w = [] then ([], None)
                        else ([], Some (Foreign ''ssh: session already started'')))),
      completes = (\<lambda>w k. Some 1),
      stdout = (\<lambda>w. ([], EndsWith io_EOF)),
      tie_takes_ctx = False,
      goroutine = BeforeSignal\<rparr>"

definition echo_cmd :: Cmd where
  "echo_cmd = newCommand (Some 1) ''echo'' [''Hello, world!'']"

definition unset_cmd :: Cmd where
  "unset_cmd = newCommand None ''echo'' [''Hello, world!'']"

definition counting :: bytes where
  "counting = [CHR ''1'', LF, CHR ''2'', LF, CHR ''3'', LF, CHR ''4'', LF]"

definition counting_remote :: Remote where
  "counting_remote =
     \<lparr>reply = (\<lambda>w k. ([], None)),
      completes = (\<lambda>w k. Some 5),
      stdout = (\<lambda>w. (counting, EndsWith io_EOF)),
      tie_takes_ctx = False,
      goroutine = BeforeSignal\<rparr>"

definition sleeping_remote :: Remote where
  "sleeping_remote = counting_remote\<lparr>completes := (\<lambda>w k. None)\<rparr>"

definition long_line :: bytes where
  "long_line = replicate 5000 (CHR ''a'') @ [LF]"

definition long_line_remote :: Remote where
  "long_line_remote = counting_remote\<lparr>stdout := (\<lambda>w. (long_line, EndsWith io_EOF))\<rparr>"

definition cancelled_cmd :: Cmd where
  "cancelled_cmd = newCommandContext (Ctx (Some 0) Canceled) (Some 1) ''count'' []"

definition deadline_cmd :: Cmd where
  "deadline_cmd = newCommandContext (Ctx (Some 3) DeadlineExceeded) (Some 1) ''sleep'' [''60'']"

definition log_all :: LoggingFunc where
  "log_all = (\<lambda>seen line. None)"

section \<open>Theorems about the credential resolver\<close>

text \<open>
  Claim C8. When the agent is unavailable (the agent flag is off, or the environment names no
  agent socket), no key path is set and no password is set, \<open>Auth\<close> returns the
  error "no auth method" and no authentication method.
\<close>

theorem Auth_no_method:
  assumes "UseAgent opt = False \<or> HasAgent h = False"
    and "Key opt = ''''"
    and "Password opt = ''''"
  shows "Auth h opt = Inl ErrNoAuthMethod"
  using assms by (auto simp: Auth_def)

theorem Auth_no_method_witness:
  "HasAgent bare_host = False \<and> Key no_credentials = '''' \<and> Password no_credentials = ''''
   \<and> Auth bare_host no_credentials = Inl ErrNoAuthMethod"
proof -
  have a: "HasAgent bare_host = False"
    by (simp add: HasAgent_def bare_host_def)
  have k: "Key no_credentials = ''''" and p: "Password no_credentials = ''''"
    by (simp_all add: no_credentials_def)
  from Auth_no_method [of no_credentials bare_host] a k p show ?thesis
    by simp
qed

text \<open>
  Claim C9, as stated: with a key path whose key fails to load and a non-empty password,
  \<open>Auth\<close> returns a password proof. It does not when the agent is asked first and answers:
  the agent's proof is returned and neither the key nor the password is looked at.
\<close>

theorem Auth_agent_before_password:
  "Key agent_bad_key_and_password \<noteq> ''''
   \<and> isl (KeyMethod agent_host (Key agent_bad_key_and_password)
             (KeyPassphrase agent_bad_key_and_password))
   \<and> Password agent_bad_key_and_password \<noteq> ''''
   \<and> Auth agent_host agent_bad_key_and_password = Inr (PublicKeysCallback 7)
   \<and> Auth agent_host agent_bad_key_and_password
       \<noteq> Inr (PasswordMethod (Password agent_bad_key_and_password))"
  by (simp add: Auth_def Agent_def HasAgent_def KeyMethod_def GetSigner_def PasswordMethod_def
      agent_host_def bare_host_def agent_bad_key_and_password_def bad_key_and_password_def
      no_credentials_def)

text \<open>
  Claim C9, amended: when the agent step yields no proof (the agent flag is off, or
  \<open>Agent\<close> fails, which it does when there is no socket), a key path is set whose key
  fails to load or parse, and the password is not empty, \<open>Auth\<close> does not fail at the
  key step and returns the password proof.
\<close>

theorem Auth_key_failure_falls_through:
  assumes "UseAgent opt = False \<or> isl (Agent h)"
    and "Key opt \<noteq> ''''"
    and "isl (KeyMethod h (Key opt) (KeyPassphrase opt))"
    and "Password opt \<noteq> ''''"
  shows "Auth h opt = Inr (PasswordMethod (Password opt))"
proof -
  have agent: "(if UseAgent opt \<and> HasAgent h then Some (Agent h) else None) = None
               \<or> (\<exists>e. (if UseAgent opt \<and> HasAgent h then Some (Agent h) else None) = Some (Inl e))"
    using assms(1) by (cases "Agent h") auto
  obtain e where key: "KeyMethod h (Key opt) (KeyPassphrase opt) = Inl e"
    using assms(3) by (cases "KeyMethod h (Key opt) (KeyPassphrase opt)") auto
  from agent show ?thesis
  proof
    assume "(if UseAgent opt \<and> HasAgent h then Some (Agent h) else None) = None"
    then show ?thesis
      using key assms(2,4) by (simp add: Auth_def)
  next
    assume "\<exists>e. (if UseAgent opt \<and> HasAgent h then Some (Agent h) else None) = Some (Inl e)"
    then obtain e' where
      "(if UseAgent opt \<and> HasAgent h then Some (Agent h) else None) = Some (Inl e')" ..
    then show ?thesis
      using key assms(2,4) by (simp add: Auth_def)
  qed
qed

theorem Auth_key_failure_falls_through_witness:
  "UseAgent bad_key_and_password = False
   \<and> Key bad_key_and_password \<noteq> ''''
   \<and> isl (KeyMethod bare_host (Key bad_key_and_password) (KeyPassphrase bad_key_and_password))
   \<and> Password bad_key_and_password \<noteq> ''''
   \<and> Auth bare_host bad_key_and_password = Inr (PasswordAuth ''secret'')"
proof -
  have a: "UseAgent bad_key_and_password = False"
    and k: "Key bad_key_and_password \<noteq> ''''"
    and p: "Password bad_key_and_password \<noteq> ''''"
    and pw: "Password bad_key_and_password = ''secret''"
    by (simp_all add: bad_key_and_password_def no_credentials_def)
  have f: "isl (KeyMethod bare_host (Key bad_key_and_password)
                 (KeyPassphrase bad_key_and_password))"
    by (simp add: KeyMethod_def GetSigner_def bare_host_def)
  from Auth_key_failure_falls_through [of bad_key_and_password bare_host] a k f p pw
  show ?thesis by (simp add: PasswordMethod_def)
qed

section \<open>Theorems about the connection manager\<close>

text \<open>
  Claim C10. A client made by \<open>New\<close>, on which \<open>WithHostKeyCallback\<close> is never
  called, dials with a configuration whose host key callback returns \<^verbatim>\<open>nil\<close> for every host
  name, remote address and presented key: by default no host identity is verified.
\<close>

theorem New_accepts_every_host_key:
  assumes "New h opt = Inr c"
  shows "dial T c =
           ssh_Dial T DefaultProtocol (JoinHostPort (Addr opt) (Itoa (Port opt)))
             (dial_ClientConfig c)
         \<and> HostKeyCallback (dial_ClientConfig c) hostname remote key = None"
  using assms
  by (auto simp: New_def dial_def dial_ClientConfig_def split: sum.splits)

theorem New_accepts_every_host_key_witness:
  "New bare_host password_options = Inr password_client
   \<and> dial tcp_transport password_client = Inr 1
   \<and> HostKeyCallback (dial_ClientConfig password_client)
        ''10.0.0.1:22'' ''10.0.0.1:22'' (PublicKey ''ssh-ed25519'' ''k1'') = None"
proof -
  have n: "New bare_host password_options = Inr password_client"
    by (simp add: New_def Auth_def HasAgent_def bare_host_def password_options_def
        NewOptions_def PasswordMethod_def password_client_def)
  from New_accepts_every_host_key [OF n, of tcp_transport]
  show ?thesis using n by (simp add: tcp_transport_def)
qed

text \<open>
  Claim C5, as stated: on a client that was dialed and closed, a second \<open>Close\<close> is a
  no-op that returns \<^verbatim>\<open>nil\<close>. On a transport whose connections report a repeated close, the
  second \<open>Close\<close> calls the transport again (the count of calls goes from 1 to 2) and
  returns the transport's error.
\<close>

theorem Close_twice_calls_transport_twice:
  "Dial tcp_transport password_client = (None, dialed_client)
   \<and> Close tcp_transport dialed_client 0 = (None, dialed_client, 1)
   \<and> Close tcp_transport dialed_client 1
       = (Some (Foreign ''use of closed network connection''), dialed_client, 2)"
  by (simp add: Dial_def dial_def Close_def tcp_transport_def dialed_client_def
      password_client_def)

text \<open>
  Claim C5, amended: \<open>Close\<close> is a no-op that returns \<^verbatim>\<open>nil\<close> on a client that holds no
  connection (one that was never dialed with success). After a successful \<open>Dial\<close> the
  client holds the connection for good: every \<open>Close\<close>, the first and each later one, calls
  \<^verbatim>\<open>Close\<close> of the transport once more, returns what the transport returns and leaves the client
  as it was.
\<close>

theorem Close_after_Dial:
  assumes "Dial T c = (None, c')"
  shows "\<exists>cli. dial T c = Inr cli \<and> ssh_Client c' = Some cli
           \<and> (\<forall>n. Close T c' n = (ssh_Close T cli n, c', Suc n))
           \<and> Close T (c'\<lparr>ssh_Client := None\<rparr>) n = (None, c'\<lparr>ssh_Client := None\<rparr>, n)"
  using assms by (auto simp: Dial_def Close_def split: sum.splits)

theorem Close_after_Dial_witness:
  "Dial tcp_transport password_client = (None, dialed_client)
   \<and> ssh_Client dialed_client = Some 1
   \<and> Close tcp_transport dialed_client 0 = (ssh_Close tcp_transport 1 0, dialed_client, 1)
   \<and> Close tcp_transport dialed_client 1 = (ssh_Close tcp_transport 1 1, dialed_client, 2)"
proof -
  have d: "Dial tcp_transport password_client = (None, dialed_client)"
    by (simp add: Dial_def dial_def tcp_transport_def dialed_client_def)
  have s: "dial tcp_transport password_client = Inr 1"
    by (simp add: dial_def tcp_transport_def)
  from Close_after_Dial [OF d, of 0] s d show ?thesis
    by (auto simp: numeral_2_eq_2)
qed

section \<open>Theorems about the host trust store\<close>









lemma VerifyKnownHost_by_callback:
  "VerifyKnownHost K d fpath host remote key =
     (case load_store K d fpath of
        Inl err \<Rightarrow> (False, Some err)
      | Inr db \<Rightarrow>
          (case check K db host remote key of
             None \<Rightarrow> (True, None)
           | Some (KeyError want) \<Rightarrow>
               (if 0 < length want then (True, Some (KeyError want)) else (False, None))
           | Some _ \<Rightarrow> (False, None)))"
  by (auto simp: VerifyKnownHost_def load_store_def store_path_def DefaultHostKeyCallback_def
      knownhosts_New_def split: sum.splits option.splits)

lemma VerifyKnownHost_load:
  "VerifyKnownHost (modelled N L P) d fpath host remote key =
     (case load_store (modelled N L P) d fpath of
        Inl err \<Rightarrow> (False, Some err)
      | Inr db \<Rightarrow>
          (if key \<in> set (known_keys N db host) then (True, None)
           else if known_keys N db host \<noteq> [] then (True, Some (KeyError (known_keys N db host)))
           else (False, None)))"
  by (auto simp: VerifyKnownHost_by_callback modelled_def hostKeyDB_check_def split: sum.splits)


lemma seeded_load:
  "load_store sample_package seeded_disk '''' = Inr [([''example.com''], key1)]"
  by (simp add: load_store_def store_path_def DefaultKnownHostsPath_def sample_package_def
      modelled_def seeded_disk_def fresh_disk_def split_lines_def sample_parse_line_def
      key_byte_def key1_def LF_def)

text \<open>
  Claim C2, as stated: for every state of the trust store, an absent alias gives
  \<^verbatim>\<open>(false, nil)\<close>. A store that cannot be loaded is such a state (here: there is no file
  yet), the alias is absent, and \<open>VerifyKnownHost\<close> returns the load error.
\<close>

theorem VerifyKnownHost_missing_file:
  "files fresh_disk ''/root/.ssh/known_hosts'' = None
   \<and> VerifyKnownHost sample_package fresh_disk '''' ''example.com:22'' ''10.0.0.1:22'' key1
       = (False, Some (Foreign ''open: no such file or directory''))"
  by (simp add: VerifyKnownHost_def DefaultHostKeyCallback_def DefaultKnownHostsPath_def
      knownhosts_New_def fresh_disk_def)

text \<open>
  Claim C2, amended: for a trust store that loads, \<open>VerifyKnownHost\<close> returns
  \<^verbatim>\<open>(true, nil)\<close> when the alias is recorded with the presented key,
  \<^verbatim>\<open>(true, e)\<close> with \<open>e\<close> the key error that carries the recorded keys when the alias
  is recorded with other keys only, and \<^verbatim>\<open>(false, nil)\<close> when the alias is not recorded; for
  a store that does not load it returns \<^verbatim>\<open>(false, err)\<close> with the load error.
\<close>

theorem VerifyKnownHost_outcomes:
  "(\<forall>db. load_store (modelled N L P) d fpath = Inr db \<longrightarrow>
      (key \<in> set (known_keys N db host) \<longrightarrow>
         VerifyKnownHost (modelled N L P) d fpath host remote key = (True, None))
      \<and> (key \<notin> set (known_keys N db host) \<and> known_keys N db host \<noteq> [] \<longrightarrow>
         VerifyKnownHost (modelled N L P) d fpath host remote key
           = (True, Some (KeyError (known_keys N db host))))
      \<and> (known_keys N db host = [] \<longrightarrow>
         VerifyKnownHost (modelled N L P) d fpath host remote key = (False, None)))
   \<and> (\<forall>err. load_store (modelled N L P) d fpath = Inl err \<longrightarrow>
         VerifyKnownHost (modelled N L P) d fpath host remote key = (False, Some err))"
proof (cases "load_store (modelled N L P) d fpath")
  case (Inl err)
  then show ?thesis
    by (simp add: VerifyKnownHost_load)
next
  case (Inr db)
  show ?thesis
  proof (cases "key \<in> set (known_keys N db host)")
    case True
    then have "known_keys N db host \<noteq> []"
      by auto
    with True Inr show ?thesis
      by (simp add: VerifyKnownHost_load)
  next
    case False
    with Inr show ?thesis
      by (simp add: VerifyKnownHost_load)
  qed
qed

theorem VerifyKnownHost_outcomes_witness:
  "load_store sample_package seeded_disk '''' = Inr [([''example.com''], key1)]
   \<and> VerifyKnownHost sample_package seeded_disk '''' ''example.com:22'' ''10.0.0.1:22'' key1
       = (True, None)
   \<and> VerifyKnownHost sample_package seeded_disk '''' ''example.com:22'' ''10.0.0.1:22'' key2
       = (True, Some (KeyError [key1]))
   \<and> VerifyKnownHost sample_package seeded_disk '''' ''other.org:22'' ''10.0.0.2:22'' key1
       = (False, None)
   \<and> VerifyKnownHost sample_package fresh_disk '''' ''example.com:22'' ''10.0.0.1:22'' key1
       = (False, Some (Foreign ''open: no such file or directory''))"
proof -
  note l = seeded_load
  have f: "load_store sample_package fresh_disk ''''
             = Inl (Foreign ''open: no such file or directory'')"
    by (simp add: load_store_def store_path_def DefaultKnownHostsPath_def fresh_disk_def)
  have k: "known_keys sample_Normalize [([''example.com''], key1)] ''example.com:22'' = [key1]"
    and k': "known_keys sample_Normalize [([''example.com''], key1)] ''other.org:22'' = []"
    by (simp_all add: known_keys_def sample_Normalize_def)
  have ne: "key2 \<noteq> key1"
    by (simp add: key1_def key2_def)
  from VerifyKnownHost_outcomes
         [of sample_Normalize sample_Line sample_parse_line seeded_disk "''''" key1
             "''example.com:22''" "''10.0.0.1:22''"]
       VerifyKnownHost_outcomes
         [of sample_Normalize sample_Line sample_parse_line seeded_disk "''''" key2
             "''example.com:22''" "''10.0.0.1:22''"]
       VerifyKnownHost_outcomes
         [of sample_Normalize sample_Line sample_parse_line seeded_disk "''''" key1
             "''other.org:22''" "''10.0.0.2:22''"]
       VerifyKnownHost_outcomes
         [of sample_Normalize sample_Line sample_parse_line fresh_disk "''''" key1
             "''example.com:22''" "''10.0.0.1:22''"]
       l f k k' ne
  show ?thesis by (simp add: sample_package_def)
qed





text \<open>
  The same happens on a file that loads but whose last line has no line feed: the bytes of
  the new record follow the last byte of the file, the two lines become one, and the sample
  parser rejects it.
\<close>

lemma append_then_verify_unterminated_line:
  "load_store sample_package unterminated_disk ''''
     = Inr [([''other.org''], PublicKey ''ssh-ed25519'' ''AAAA-other'')]
   \<and> fst (AppendKnownHost sample_package unterminated_disk ''''
          ''example.com:22'' ''10.0.0.1:22'' key1) = None
   \<and> files (snd (AppendKnownHost sample_package unterminated_disk ''''
                   ''example.com:22'' ''10.0.0.1:22'' key1)) ''/root/.ssh/known_hosts''
       = Some (''other.org ssh-ed25519 AAAA-other10.0.0.1,example.com ssh-ed25519 AAAA-first''
               @ [LF])
   \<and> VerifyKnownHost sample_package
        (snd (AppendKnownHost sample_package unterminated_disk ''''
                ''example.com:22'' ''10.0.0.1:22'' key1))
        '''' ''example.com:22'' ''10.0.0.1:22'' key1
       = (False, Some (Foreign ''knownhosts: line rejected''))"
  by (simp add: load_store_def store_path_def AppendKnownHost_def VerifyKnownHost_def
      DefaultKnownHostsPath_def DefaultHostKeyCallback_def knownhosts_New_def OpenFile_def
      WriteString_def sample_package_def modelled_def sample_Line_def sample_Normalize_def
      sample_parse_line_def key_byte_def split_lines_def unterminated_disk_def fresh_disk_def
      key1_def LF_def Let_def)



text \<open>
  Beyond the claims, a consequence for the trust-on-first-use policy: when the default trust
  store cannot be loaded, \<open>VerifyKnownHost\<close> reports the host as not found, so
  \<open>AutoFixedHostKeyCallback\<close> goes on to append the presented key and returns what the
  append returns. On a store that holds a rejected line it accepts a key for a host whatever
  the other lines of the store record for that host.
\<close>

theorem AutoFixedHostKeyCallback_unloadable_store:
  assumes "load_store K d '''' = Inl e"
  shows "VerifyKnownHost K d '''' host remote key = (False, Some e)
         \<and> AutoFixedHostKeyCallback K d host remote key
             = AppendKnownHost K d '''' host remote key"
  using assms by (simp add: AutoFixedHostKeyCallback_def VerifyKnownHost_by_callback)

theorem AutoFixedHostKeyCallback_unloadable_store_witness:
  "load_store sample_package damaged_disk '''' = Inl (Foreign ''knownhosts: line rejected'')
   \<and> VerifyKnownHost sample_package damaged_disk '''' ''example.com:22'' ''10.0.0.1:22'' key2
       = (False, Some (Foreign ''knownhosts: line rejected''))
   \<and> fst (AutoFixedHostKeyCallback sample_package damaged_disk
            ''example.com:22'' ''10.0.0.1:22'' key2) = None"
proof -
  have l: "load_store sample_package damaged_disk ''''
             = Inl (Foreign ''knownhosts: line rejected'')"
    by (simp add: load_store_def store_path_def DefaultKnownHostsPath_def sample_package_def
        modelled_def sample_parse_line_def split_lines_def damaged_disk_def fresh_disk_def
        LF_def)
  have a: "fst (AppendKnownHost sample_package damaged_disk '''' ''example.com:22''
                  ''10.0.0.1:22'' key2) = None"
    by (simp add: AppendKnownHost_def DefaultKnownHostsPath_def OpenFile_def WriteString_def
        damaged_disk_def fresh_disk_def Let_def)
  from AutoFixedHostKeyCallback_unloadable_store
         [OF l, of "''example.com:22''" "''10.0.0.1:22''" key2] l a
  show ?thesis by simp
qed

section \<open>Theorems about the remote command\<close>

lemma invoke_nil_session:
  "session c = None \<Longrightarrow> invoke R c op w = (Returns ([], Some ErrNilSession), c, w)"
  by (cases op) (simp_all add: Run_def Output_def CombinedOutput_def Start_def OutputPipe_def)

lemma Run_keeps_Cmd: "Run R c w = (res, c', w') \<Longrightarrow> c' = c"
  by (auto simp: Run_def split: option.splits prod.splits outcome.splits)

lemma Output_keeps_Cmd: "Output R c w = (res, c', w') \<Longrightarrow> c' = c"
  by (auto simp: Output_def split: option.splits prod.splits outcome.splits)

lemma CombinedOutput_keeps_Cmd: "CombinedOutput R c w = (res, c', w') \<Longrightarrow> c' = c"
  by (auto simp: CombinedOutput_def split: option.splits prod.splits outcome.splits)

lemma Start_keeps_Cmd: "Start R c w = (res, c', w') \<Longrightarrow> c' = c"
  by (auto simp: Start_def split: option.splits)

lemma OutputPipe_keeps_Cmd: "OutputPipe R c fn w = (res, seen, c', w') \<Longrightarrow> c' = c"
  by (auto simp: OutputPipe_def Let_def split: option.splits prod.splits loop_exit.splits)

lemma invoke_keeps_Cmd: "invoke R c op w = (res, c', w') \<Longrightarrow> c' = c"
proof (cases op)
  case OpRun
  assume "invoke R c op w = (res, c', w')"
  with OpRun show ?thesis
    by (cases "Run R c w" rule: prod_cases3)
       (auto dest: Run_keeps_Cmd split: outcome.splits)
next
  case OpOutput
  assume "invoke R c op w = (res, c', w')"
  with OpOutput show ?thesis
    by (auto dest: Output_keeps_Cmd)
next
  case OpCombinedOutput
  assume "invoke R c op w = (res, c', w')"
  with OpCombinedOutput show ?thesis
    by (auto dest: CombinedOutput_keeps_Cmd)
next
  case OpStart
  assume "invoke R c op w = (res, c', w')"
  with OpStart show ?thesis
    by (cases "Start R c w" rule: prod_cases3) (auto dest: Start_keeps_Cmd)
next
  case (OpOutputPipe fn)
  assume "invoke R c op w = (res, c', w')"
  with OpOutputPipe show ?thesis
    by (cases "OutputPipe R c fn w" rule: prod_cases4)
       (auto dest: OutputPipe_keeps_Cmd split: outcome.splits)
qed

lemma execute_call_first:
  "call_first c R w k \<Longrightarrow> execute R c k w = (Returns (reply R w k), w @ [k])"
  by (auto simp: call_first_def done_first_def execute_def executeWithCtx_def
      split: option.splits)

lemma executeWithCtx_done_first:
  "done_first cx R w k \<Longrightarrow>
   executeWithCtx R cx k w = (Returns ([], Some (Err cx)), w @ signal_trace R k)"
  by (auto simp: done_first_def executeWithCtx_def split: option.splits)

lemma execute_done_first:
  "ctx c = Some cx \<Longrightarrow> done_first cx R w k \<Longrightarrow>
   execute R c k w = (Returns ([], Some (Err cx)), w @ signal_trace R k)"
  by (simp add: execute_def executeWithCtx_done_first)

lemma OutputPipe_pipe_fails:
  "session c = Some s \<Longrightarrow> snd (reply R w Session_StdoutPipe) = Some err \<Longrightarrow>
   OutputPipe R c fn w = (Returns (Some err), [], c, w @ [Session_StdoutPipe, Session_Close])"
  by (simp add: OutputPipe_def)

lemma OutputPipe_start_fails:
  "session c = Some s \<Longrightarrow> snd (reply R w Session_StdoutPipe) = None \<Longrightarrow>
   snd (reply R (w @ [Session_StdoutPipe]) (Session_Start (String c))) = Some err \<Longrightarrow>
   OutputPipe R c fn w
     = (Returns (Some err), [], c,
        w @ [Session_StdoutPipe, Session_Start (String c), Session_Close])"
  by (simp add: OutputPipe_def Let_def)

lemma OutputPipe_handler_fails:
  "session c = Some s \<Longrightarrow> snd (reply R w Session_StdoutPipe) = None \<Longrightarrow>
   snd (reply R (w @ [Session_StdoutPipe]) (Session_Start (String c))) = None \<Longrightarrow>
   read_loop fn (snd (stdout R (w @ [Session_StdoutPipe, Session_Start (String c)]))) []
     (fst (stdout R (w @ [Session_StdoutPipe, Session_Start (String c)])))
     = (HandlerFailed err, seen) \<Longrightarrow>
   OutputPipe R c fn w
     = (Returns (Some err), seen, c,
        w @ [Session_StdoutPipe, Session_Start (String c), Session_Close])"
  by (simp add: OutputPipe_def Let_def)

lemma OutputPipe_waits:
  "session c = Some s \<Longrightarrow> snd (reply R w Session_StdoutPipe) = None \<Longrightarrow>
   snd (reply R (w @ [Session_StdoutPipe]) (Session_Start (String c))) = None \<Longrightarrow>
   read_loop fn (snd (stdout R (w @ [Session_StdoutPipe, Session_Start (String c)]))) []
     (fst (stdout R (w @ [Session_StdoutPipe, Session_Start (String c)])))
     = (StreamDone, seen) \<Longrightarrow>
   completes R (w @ [Session_StdoutPipe, Session_Start (String c)]) Session_Wait = Some t \<Longrightarrow>
   OutputPipe R c fn w
     = (Returns (snd (reply R (w @ [Session_StdoutPipe, Session_Start (String c)])
                        Session_Wait)), seen, c,
        w @ [Session_StdoutPipe, Session_Start (String c), Session_Wait, Session_Close])"
  by (simp add: OutputPipe_def Let_def)

text \<open>
  Claim C1, as stated: once an operation has completed, a second operation on the same
  \<^verbatim>\<open>Cmd\<close> returns \<^verbatim>\<open>ErrNilSession\<close> without a call to the transport. A \<^verbatim>\<open>Cmd\<close> made with a
  session keeps it: the second \<open>Output\<close> calls \<^verbatim>\<open>Output\<close> and \<^verbatim>\<open>Close\<close> of the session
  again and returns the session's own error.
\<close>

theorem Output_twice_calls_session_twice:
  "Output hello_remote echo_cmd []
     = (Returns (hello, None), echo_cmd, [Session_Output ''echo Hello, world!'', Session_Close])
   \<and> Output hello_remote echo_cmd [Session_Output ''echo Hello, world!'', Session_Close]
     = (Returns ([], Some (Foreign ''ssh: Stdout already set'')), echo_cmd,
        [Session_Output ''echo Hello, world!'', Session_Close,
         Session_Output ''echo Hello, world!'', Session_Close])"
  by (simp add: Output_def execute_def String_def echo_cmd_def newCommand_def hello_remote_def)

text \<open>
  Claim C1, amended: an operation (\<open>Run\<close>, \<open>Output\<close>, \<open>CombinedOutput\<close>, \<open>Start\<close>,
  \<open>OutputPipe\<close>) returns \<^verbatim>\<open>ErrNilSession\<close> without a call to the transport when the session
  field of the \<^verbatim>\<open>Cmd\<close> is \<^verbatim>\<open>nil\<close>. No operation changes the field. So after an operation has
  returned, a second operation on the same \<^verbatim>\<open>Cmd\<close> returns \<^verbatim>\<open>ErrNilSession\<close> when the field
  is \<^verbatim>\<open>nil\<close>; when the \<^verbatim>\<open>Cmd\<close> has a session, the second operation passes the check and calls
  the session again, on top of the calls the session has received, and closes it again:
  \<^item> \<open>Run\<close>, \<open>Output\<close> and \<open>CombinedOutput\<close> return what the session's call returns when
    that call returns and the context is not taken first, and the context's error with no
    output, after a \<^verbatim>\<open>SIGINT\<close>, when the context is taken first;
  \<^item> \<open>Start\<close> returns what the session's \<^verbatim>\<open>Start\<close> returns;
  \<^item> \<open>OutputPipe\<close> returns the error of \<^verbatim>\<open>StdoutPipe\<close> or of \<^verbatim>\<open>Start\<close> when one of them
    fails, and otherwise runs its read loop and returns the handler's error or, when the
    stream ends and \<^verbatim>\<open>Wait\<close> returns, what \<^verbatim>\<open>Wait\<close> returns.
\<close>

theorem second_invocation:
  assumes "invoke R c op1 w = (Returns r1, c1, w1)"
  shows "c1 = c
   \<and> (session c = None \<longrightarrow>
        invoke R c1 op2 w1 = (Returns ([], Some ErrNilSession), c1, w1))
   \<and> (session c \<noteq> None \<longrightarrow>
        (call_first c R w1 (Session_Run (String c)) \<longrightarrow>
           Run R c1 w1 = (Returns (snd (reply R w1 (Session_Run (String c)))), c1,
                          w1 @ [Session_Run (String c), Session_Close]))
      \<and> (call_first c R w1 (Session_Output (String c)) \<longrightarrow>
           Output R c1 w1 = (Returns (reply R w1 (Session_Output (String c))), c1,
                             w1 @ [Session_Output (String c), Session_Close]))
      \<and> (call_first c R w1 (Session_CombinedOutput (String c)) \<longrightarrow>
           CombinedOutput R c1 w1
             = (Returns (reply R w1 (Session_CombinedOutput (String c))), c1,
                w1 @ [Session_CombinedOutput (String c), Session_Close]))
      \<and> (\<forall>cx. ctx c = Some cx \<and> done_first cx R w1 (Session_Run (String c)) \<longrightarrow>
           Run R c1 w1 = (Returns (Some (Err cx)), c1,
                          w1 @ signal_trace R (Session_Run (String c)) @ [Session_Close]))
      \<and> (\<forall>cx. ctx c = Some cx \<and> done_first cx R w1 (Session_Output (String c)) \<longrightarrow>
           Output R c1 w1 = (Returns ([], Some (Err cx)), c1,
                             w1 @ signal_trace R (Session_Output (String c)) @ [Session_Close]))
      \<and> (\<forall>cx. ctx c = Some cx \<and> done_first cx R w1 (Session_CombinedOutput (String c)) \<longrightarrow>
           CombinedOutput R c1 w1
             = (Returns ([], Some (Err cx)), c1,
                w1 @ signal_trace R (Session_CombinedOutput (String c)) @ [Session_Close]))
      \<and> Start R c1 w1 = (snd (reply R w1 (Session_Start (String c))), c1,
                          w1 @ [Session_Start (String c), Session_Close])
      \<and> (\<forall>fn err. snd (reply R w1 Session_StdoutPipe) = Some err \<longrightarrow>
           OutputPipe R c1 fn w1
             = (Returns (Some err), [], c1, w1 @ [Session_StdoutPipe, Session_Close]))
      \<and> (\<forall>fn err. snd (reply R w1 Session_StdoutPipe) = None
             \<and> snd (reply R (w1 @ [Session_StdoutPipe]) (Session_Start (String c))) = Some err
           \<longrightarrow> OutputPipe R c1 fn w1
                 = (Returns (Some err), [], c1,
                    w1 @ [Session_StdoutPipe, Session_Start (String c), Session_Close]))
      \<and> (\<forall>fn err seen. snd (reply R w1 Session_StdoutPipe) = None
             \<and> snd (reply R (w1 @ [Session_StdoutPipe]) (Session_Start (String c))) = None
             \<and> read_loop fn
                 (snd (stdout R (w1 @ [Session_StdoutPipe, Session_Start (String c)]))) []
                 (fst (stdout R (w1 @ [Session_StdoutPipe, Session_Start (String c)])))
               = (HandlerFailed err, seen)
           \<longrightarrow> OutputPipe R c1 fn w1
                 = (Returns (Some err), seen, c1,
                    w1 @ [Session_StdoutPipe, Session_Start (String c), Session_Close]))
      \<and> (\<forall>fn seen. snd (reply R w1 Session_StdoutPipe) = None
             \<and> snd (reply R (w1 @ [Session_StdoutPipe]) (Session_Start (String c))) = None
             \<and> read_loop fn
                 (snd (stdout R (w1 @ [Session_StdoutPipe, Session_Start (String c)]))) []
                 (fst (stdout R (w1 @ [Session_StdoutPipe, Session_Start (String c)])))
               = (StreamDone, seen)
             \<and> completes R (w1 @ [Session_StdoutPipe, Session_Start (String c)]) Session_Wait
               \<noteq> None
           \<longrightarrow> OutputPipe R c1 fn w1
                 = (Returns (snd (reply R (w1 @ [Session_StdoutPipe, Session_Start (String c)])
                                    Session_Wait)), seen, c1,
                    w1 @ [Session_StdoutPipe, Session_Start (String c), Session_Wait,
                          Session_Close])))"
proof -
  have c1: "c1 = c"
    using assms by (rule invoke_keeps_Cmd)
  show ?thesis
  proof (cases "session c")
    case None
    then show ?thesis
      by (simp add: c1 invoke_nil_session)
  next
    case (Some s)
    have run: "Run R c w1 = (Returns (snd (reply R w1 (Session_Run (String c)))), c,
                             w1 @ [Session_Run (String c), Session_Close])"
      if "call_first c R w1 (Session_Run (String c))"
      using that Some by (simp add: Run_def execute_call_first)
    have out: "Output R c w1 = (Returns (reply R w1 (Session_Output (String c))), c,
                                w1 @ [Session_Output (String c), Session_Close])"
      if "call_first c R w1 (Session_Output (String c))"
      using that Some by (simp add: Output_def execute_call_first)
    have comb: "CombinedOutput R c w1
                  = (Returns (reply R w1 (Session_CombinedOutput (String c))), c,
                     w1 @ [Session_CombinedOutput (String c), Session_Close])"
      if "call_first c R w1 (Session_CombinedOutput (String c))"
      using that Some by (simp add: CombinedOutput_def execute_call_first)
    have run': "Run R c w1 = (Returns (Some (Err cx)), c,
                     w1 @ signal_trace R (Session_Run (String c)) @ [Session_Close])"
      if "ctx c = Some cx" "done_first cx R w1 (Session_Run (String c))" for cx
      using that Some by (simp add: Run_def execute_done_first)
    have out': "Output R c w1 = (Returns ([], Some (Err cx)), c,
                     w1 @ signal_trace R (Session_Output (String c)) @ [Session_Close])"
      if "ctx c = Some cx" "done_first cx R w1 (Session_Output (String c))" for cx
      using that Some by (simp add: Output_def execute_done_first)
    have comb': "CombinedOutput R c w1 = (Returns ([], Some (Err cx)), c,
                     w1 @ signal_trace R (Session_CombinedOutput (String c)) @ [Session_Close])"
      if "ctx c = Some cx" "done_first cx R w1 (Session_CombinedOutput (String c))" for cx
      using that Some by (simp add: CombinedOutput_def execute_done_first)
    have start: "Start R c w1 = (snd (reply R w1 (Session_Start (String c))), c,
                                 w1 @ [Session_Start (String c), Session_Close])"
      using Some by (simp add: Start_def)
    have waits: "OutputPipe R c fn w1
                 = (Returns (snd (reply R (w1 @ [Session_StdoutPipe, Session_Start (String c)])
                                    Session_Wait)), seen, c,
                    w1 @ [Session_StdoutPipe, Session_Start (String c), Session_Wait,
                          Session_Close])"
      if "snd (reply R w1 Session_StdoutPipe) = None"
        "snd (reply R (w1 @ [Session_StdoutPipe]) (Session_Start (String c))) = None"
        "read_loop fn
           (snd (stdout R (w1 @ [Session_StdoutPipe, Session_Start (String c)]))) []
           (fst (stdout R (w1 @ [Session_StdoutPipe, Session_Start (String c)])))
         = (StreamDone, seen)"
        "completes R (w1 @ [Session_StdoutPipe, Session_Start (String c)]) Session_Wait \<noteq> None"
      for fn seen
    proof -
      from that(4) obtain t where
        "completes R (w1 @ [Session_StdoutPipe, Session_Start (String c)]) Session_Wait = Some t"
        by auto
      from OutputPipe_waits [OF Some that(1) that(2) that(3) this] show ?thesis .
    qed
    from Some have live: "session c \<noteq> None"
      by simp
    show ?thesis
      unfolding c1
      using live run out comb run' out' comb' start waits
        OutputPipe_pipe_fails [OF Some] OutputPipe_start_fails [OF Some]
        OutputPipe_handler_fails [OF Some]
      by (intro conjI impI allI) (blast | (elim conjE, blast))+
  qed
qed

lemma read_loop_counting:
  "read_loop log_all (EndsWith io_EOF) [] counting = (StreamDone, [''1'', ''2'', ''3'', ''4''])"
  by (simp add: read_loop.simps ReadLine_def counting_def log_all_def defaultBufSize_def
      LF_def CR_def)

lemma read_loop_counting_stop:
  "read_loop (\<lambda>seen line. if line = ''3'' then Some (Foreign ''stop'') else None)
     (EndsWith io_EOF) [] counting
     = (HandlerFailed (Foreign ''stop''), [''1'', ''2'', ''3''])"
  by (simp add: read_loop.simps ReadLine_def counting_def defaultBufSize_def LF_def CR_def)

theorem second_invocation_witness:
  "invoke hello_remote unset_cmd OpRun [] = (Returns ([], Some ErrNilSession), unset_cmd, [])
   \<and> session unset_cmd = None
   \<and> invoke hello_remote unset_cmd OpOutput [] = (Returns ([], Some ErrNilSession), unset_cmd, [])
   \<and> invoke hello_remote echo_cmd OpOutput []
       = (Returns (hello, None), echo_cmd, [Session_Output ''echo Hello, world!'', Session_Close])
   \<and> session echo_cmd \<noteq> None
   \<and> call_first echo_cmd hello_remote [Session_Output ''echo Hello, world!'', Session_Close]
       (Session_Run ''echo Hello, world!'')
   \<and> Run hello_remote echo_cmd [Session_Output ''echo Hello, world!'', Session_Close]
       = (Returns (Some (Foreign ''ssh: session already started'')), echo_cmd,
          [Session_Output ''echo Hello, world!'', Session_Close,
           Session_Run ''echo Hello, world!'', Session_Close])
   \<and> Output hello_remote echo_cmd [Session_Output ''echo Hello, world!'', Session_Close]
       = (Returns ([], Some (Foreign ''ssh: Stdout already set'')), echo_cmd,
          [Session_Output ''echo Hello, world!'', Session_Close,
           Session_Output ''echo Hello, world!'', Session_Close])
   \<and> Start hello_remote echo_cmd [Session_Output ''echo Hello, world!'', Session_Close]
       = (Some (Foreign ''ssh: session already started''), echo_cmd,
          [Session_Output ''echo Hello, world!'', Session_Close,
           Session_Start ''echo Hello, world!'', Session_Close])
   \<and> OutputPipe hello_remote echo_cmd log_all
        [Session_Output ''echo Hello, world!'', Session_Close]
       = (Returns (Some (Foreign ''ssh: session already started'')), [], echo_cmd,
          [Session_Output ''echo Hello, world!'', Session_Close,
           Session_StdoutPipe, Session_Close])
   \<and> invoke sleeping_remote deadline_cmd OpStart []
       = (Returns ([], None), deadline_cmd, [Session_Start ''sleep 60'', Session_Close])
   \<and> ctx deadline_cmd = Some (Ctx (Some 3) DeadlineExceeded)
   \<and> done_first (Ctx (Some 3) DeadlineExceeded) sleeping_remote
       [Session_Start ''sleep 60'', Session_Close] (Session_Run ''sleep 60'')
   \<and> Run sleeping_remote deadline_cmd [Session_Start ''sleep 60'', Session_Close]
       = (Returns (Some DeadlineExceeded), deadline_cmd,
          [Session_Start ''sleep 60'', Session_Close,
           Session_Run ''sleep 60'', Session_Signal ''INT'', Session_Close])
   \<and> invoke counting_remote cancelled_cmd (OpOutputPipe log_all) []
       = (Returns ([], None), cancelled_cmd,
          [Session_StdoutPipe, Session_Start ''count'', Session_Wait, Session_Close])
   \<and> OutputPipe counting_remote cancelled_cmd log_all
        [Session_StdoutPipe, Session_Start ''count'', Session_Wait, Session_Close]
       = (Returns None, [''1'', ''2'', ''3'', ''4''], cancelled_cmd,
          [Session_StdoutPipe, Session_Start ''count'', Session_Wait, Session_Close,
           Session_StdoutPipe, Session_Start ''count'', Session_Wait, Session_Close])
   \<and> OutputPipe counting_remote cancelled_cmd
        (\<lambda>seen line. if line = ''3'' then Some (Foreign ''stop'') else None)
        [Session_StdoutPipe, Session_Start ''count'', Session_Wait, Session_Close]
       = (Returns (Some (Foreign ''stop'')), [''1'', ''2'', ''3''], cancelled_cmd,
          [Session_StdoutPipe, Session_Start ''count'', Session_Wait, Session_Close,
           Session_StdoutPipe, Session_Start ''count'', Session_Close])"
proof -
  have u: "invoke hello_remote unset_cmd OpRun []
             = (Returns ([], Some ErrNilSession), unset_cmd, [])"
    by (simp add: Run_def unset_cmd_def newCommand_def)
  have e: "invoke hello_remote echo_cmd OpOutput []
             = (Returns (hello, None), echo_cmd,
                [Session_Output ''echo Hello, world!'', Session_Close])"
    by (simp add: Output_def execute_def String_def echo_cmd_def newCommand_def hello_remote_def)
  have d: "invoke sleeping_remote deadline_cmd OpStart []
             = (Returns ([], None), deadline_cmd, [Session_Start ''sleep 60'', Session_Close])"
    by (simp add: Start_def String_def deadline_cmd_def newCommandContext_def newCommand_def
        sleeping_remote_def counting_remote_def)
  have p: "invoke counting_remote cancelled_cmd (OpOutputPipe log_all) []
             = (Returns ([], None), cancelled_cmd,
                [Session_StdoutPipe, Session_Start ''count'', Session_Wait, Session_Close])"
    by (simp add: OutputPipe_def read_loop_counting String_def cancelled_cmd_def
        newCommandContext_def newCommand_def counting_remote_def)
  have su: "session unset_cmd = None" and se: "session echo_cmd \<noteq> None"
    and sd: "session deadline_cmd \<noteq> None" and sc: "session cancelled_cmd \<noteq> None"
    and xd: "ctx deadline_cmd = Some (Ctx (Some 3) DeadlineExceeded)"
    and st: "String echo_cmd = ''echo Hello, world!''" "String deadline_cmd = ''sleep 60''"
      "String cancelled_cmd = ''count''"
    by (simp_all add: unset_cmd_def echo_cmd_def deadline_cmd_def cancelled_cmd_def
        newCommandContext_def newCommand_def String_def)
  have cf: "call_first echo_cmd hello_remote
              [Session_Output ''echo Hello, world!'', Session_Close]
              (Session_Run ''echo Hello, world!'')"
    "call_first echo_cmd hello_remote
       [Session_Output ''echo Hello, world!'', Session_Close]
       (Session_Output ''echo Hello, world!'')"
    by (simp_all add: call_first_def echo_cmd_def newCommand_def hello_remote_def)
  have df: "done_first (Ctx (Some 3) DeadlineExceeded) sleeping_remote
              [Session_Start ''sleep 60'', Session_Close] (Session_Run ''sleep 60'')"
    by (simp add: done_first_def sleeping_remote_def counting_remote_def)
  have rh: "reply hello_remote [Session_Output ''echo Hello, world!'', Session_Close]
              (Session_Run ''echo Hello, world!'')
            = ([], Some (Foreign ''ssh: session already started''))"
    "reply hello_remote [Session_Output ''echo Hello, world!'', Session_Close]
       (Session_Output ''echo Hello, world!'')
     = ([], Some (Foreign ''ssh: Stdout already set''))"
    "reply hello_remote [Session_Output ''echo Hello, world!'', Session_Close]
       (Session_Start ''echo Hello, world!'')
     = ([], Some (Foreign ''ssh: session already started''))"
    "reply hello_remote [Session_Output ''echo Hello, world!'', Session_Close]
       Session_StdoutPipe
     = ([], Some (Foreign ''ssh: session already started''))"
    by (simp_all add: hello_remote_def)
  have sg: "signal_trace sleeping_remote (Session_Run ''sleep 60'')
              = [Session_Run ''sleep 60'', Session_Signal ''INT'']"
    by (simp add: signal_trace_def sleeping_remote_def counting_remote_def SIGINT_def)
  have rc: "reply counting_remote = (\<lambda>w k. ([], None))"
    "stdout counting_remote = (\<lambda>w. (counting, EndsWith io_EOF))"
    "completes counting_remote = (\<lambda>w k. Some 5)"
    by (simp_all add: counting_remote_def)
  from second_invocation [OF u, of OpOutput] u su
  have a: "invoke hello_remote unset_cmd OpOutput []
             = (Returns ([], Some ErrNilSession), unset_cmd, [])"
    by simp
  from second_invocation [OF e, of OpRun] se cf rh st
  have b: "Run hello_remote echo_cmd [Session_Output ''echo Hello, world!'', Session_Close]
       = (Returns (Some (Foreign ''ssh: session already started'')), echo_cmd,
          [Session_Output ''echo Hello, world!'', Session_Close,
           Session_Run ''echo Hello, world!'', Session_Close])"
    "Output hello_remote echo_cmd [Session_Output ''echo Hello, world!'', Session_Close]
       = (Returns ([], Some (Foreign ''ssh: Stdout already set'')), echo_cmd,
          [Session_Output ''echo Hello, world!'', Session_Close,
           Session_Output ''echo Hello, world!'', Session_Close])"
    "Start hello_remote echo_cmd [Session_Output ''echo Hello, world!'', Session_Close]
       = (Some (Foreign ''ssh: session already started''), echo_cmd,
          [Session_Output ''echo Hello, world!'', Session_Close,
           Session_Start ''echo Hello, world!'', Session_Close])"
    "OutputPipe hello_remote echo_cmd log_all
        [Session_Output ''echo Hello, world!'', Session_Close]
       = (Returns (Some (Foreign ''ssh: session already started'')), [], echo_cmd,
          [Session_Output ''echo Hello, world!'', Session_Close,
           Session_StdoutPipe, Session_Close])"
    by simp_all
  from second_invocation [OF d, of OpRun] sd xd df sg st
  have i: "Run sleeping_remote deadline_cmd [Session_Start ''sleep 60'', Session_Close]
       = (Returns (Some DeadlineExceeded), deadline_cmd,
          [Session_Start ''sleep 60'', Session_Close,
           Session_Run ''sleep 60'', Session_Signal ''INT'', Session_Close])"
    by simp
  from second_invocation [OF p, of OpRun] sc rc st read_loop_counting read_loop_counting_stop
  have o: "OutputPipe counting_remote cancelled_cmd log_all
        [Session_StdoutPipe, Session_Start ''count'', Session_Wait, Session_Close]
       = (Returns None, [''1'', ''2'', ''3'', ''4''], cancelled_cmd,
          [Session_StdoutPipe, Session_Start ''count'', Session_Wait, Session_Close,
           Session_StdoutPipe, Session_Start ''count'', Session_Wait, Session_Close])"
    "OutputPipe counting_remote cancelled_cmd
        (\<lambda>seen line. if line = ''3'' then Some (Foreign ''stop'') else None)
        [Session_StdoutPipe, Session_Start ''count'', Session_Wait, Session_Close]
       = (Returns (Some (Foreign ''stop'')), [''1'', ''2'', ''3''], cancelled_cmd,
          [Session_StdoutPipe, Session_Start ''count'', Session_Wait, Session_Close,
           Session_StdoutPipe, Session_Start ''count'', Session_Close])"
    by simp_all
  from u su a e se cf(1) b d xd df i p o show ?thesis
    by simp
qed

text \<open>
  Claim C6: on a \<^verbatim>\<open>Cmd\<close> made by \<^verbatim>\<open>CommandContext\<close>, an operation whose context is done
  before the remote call completes signals \<^verbatim>\<open>SIGINT\<close> and returns the context's error. The
  code does not for \<open>OutputPipe\<close>, which never reads the context of the \<^verbatim>\<open>Cmd\<close>: with a
  context that is cancelled from the start and a process that prints four lines and exits at
  moment 5, it hands over all four lines, waits for the exit, returns \<^verbatim>\<open>nil\<close> and sends no
  signal.
\<close>

theorem OutputPipe_ignores_ctx:
  "ctx cancelled_cmd = Some (Ctx (Some 0) Canceled)
   \<and> completes counting_remote [Session_StdoutPipe, Session_Start ''count''] Session_Wait = Some 5
   \<and> OutputPipe counting_remote cancelled_cmd log_all []
       = (Returns None, [''1'', ''2'', ''3'', ''4''], cancelled_cmd,
          [Session_StdoutPipe, Session_Start ''count'', Session_Wait, Session_Close])"
  by (simp add: OutputPipe_def read_loop_counting String_def cancelled_cmd_def
      newCommandContext_def newCommand_def counting_remote_def)

text \<open>
  The operations that go through \<^verbatim>\<open>execute\<close> do read the context. On a \<^verbatim>\<open>Cmd\<close> with a
  session and a context, each of \<open>Run\<close>, \<open>Output\<close> and \<open>CombinedOutput\<close>, when the select
  takes the context's \<^verbatim>\<open>Done\<close> channel, signals \<^verbatim>\<open>SIGINT\<close> to the session and returns the
  context's error with no output, whatever the remote call would have returned; it does not
  wait for the call, which reaches the session before the signal, after it, or not before the
  operation has returned.
\<close>

theorem cancellation_interrupts:
  assumes "session c = Some s" and "ctx c = Some cx"
  shows "(done_first cx R w (Session_Run (String c)) \<longrightarrow>
            Run R c w = (Returns (Some (Err cx)), c,
                         w @ signal_trace R (Session_Run (String c)) @ [Session_Close]))
       \<and> (done_first cx R w (Session_Output (String c)) \<longrightarrow>
            Output R c w = (Returns ([], Some (Err cx)), c,
                         w @ signal_trace R (Session_Output (String c)) @ [Session_Close]))
       \<and> (done_first cx R w (Session_CombinedOutput (String c)) \<longrightarrow>
            CombinedOutput R c w = (Returns ([], Some (Err cx)), c,
                         w @ signal_trace R (Session_CombinedOutput (String c))
                           @ [Session_Close]))
       \<and> Session_Signal SIGINT \<in> set (signal_trace R k)"
  using assms
  by (simp add: Run_def Output_def CombinedOutput_def execute_def executeWithCtx_done_first
      signal_trace_def split: goroutine_call.splits)

theorem cancellation_interrupts_witness:
  "session deadline_cmd = Some 1
   \<and> ctx deadline_cmd = Some (Ctx (Some 3) DeadlineExceeded)
   \<and> completes sleeping_remote [] (Session_Run ''sleep 60'') = None
   \<and> Run sleeping_remote deadline_cmd []
       = (Returns (Some DeadlineExceeded), deadline_cmd,
          [Session_Run ''sleep 60'', Session_Signal ''INT'', Session_Close])
   \<and> completes counting_remote [] (Session_Output ''sleep 60'') = Some 5
   \<and> Output counting_remote deadline_cmd []
       = (Returns ([], Some DeadlineExceeded), deadline_cmd,
          [Session_Output ''sleep 60'', Session_Signal ''INT'', Session_Close])
   \<and> CombinedOutput (counting_remote\<lparr>goroutine := AfterSignal\<rparr>) deadline_cmd []
       = (Returns ([], Some DeadlineExceeded), deadline_cmd,
          [Session_Signal ''INT'', Session_CombinedOutput ''sleep 60'', Session_Close])
   \<and> session cancelled_cmd = Some 1
   \<and> ctx cancelled_cmd = Some (Ctx (Some 0) Canceled)
   \<and> Run (counting_remote\<lparr>goroutine := AfterReturn\<rparr>) cancelled_cmd []
       = (Returns (Some Canceled), cancelled_cmd, [Session_Signal ''INT'', Session_Close])"
proof -
  have s: "session deadline_cmd = Some 1"
    and x: "ctx deadline_cmd = Some (Ctx (Some 3) DeadlineExceeded)"
    and st: "String deadline_cmd = ''sleep 60''"
    and s': "session cancelled_cmd = Some 1"
    and x': "ctx cancelled_cmd = Some (Ctx (Some 0) Canceled)"
    and st': "String cancelled_cmd = ''count''"
    by (simp_all add: deadline_cmd_def cancelled_cmd_def newCommandContext_def newCommand_def
        String_def)
  have n: "completes sleeping_remote [] (Session_Run ''sleep 60'') = None"
    and f: "completes counting_remote [] (Session_Output ''sleep 60'') = Some 5"
    by (simp_all add: sleeping_remote_def counting_remote_def)
  have d1: "done_first (Ctx (Some 3) DeadlineExceeded) sleeping_remote []
              (Session_Run ''sleep 60'')"
    and d2: "done_first (Ctx (Some 3) DeadlineExceeded) counting_remote []
              (Session_Output ''sleep 60'')"
    and d3: "done_first (Ctx (Some 3) DeadlineExceeded)
              (counting_remote\<lparr>goroutine := AfterSignal\<rparr>) []
              (Session_CombinedOutput ''sleep 60'')"
    and d4: "done_first (Ctx (Some 0) Canceled)
              (counting_remote\<lparr>goroutine := AfterReturn\<rparr>) [] (Session_Run ''count'')"
    by (simp_all add: done_first_def sleeping_remote_def counting_remote_def)
  have g: "signal_trace sleeping_remote (Session_Run ''sleep 60'')
             = [Session_Run ''sleep 60'', Session_Signal ''INT'']"
    "signal_trace counting_remote (Session_Output ''sleep 60'')
       = [Session_Output ''sleep 60'', Session_Signal ''INT'']"
    "signal_trace (counting_remote\<lparr>goroutine := AfterSignal\<rparr>)
       (Session_CombinedOutput ''sleep 60'')
       = [Session_Signal ''INT'', Session_CombinedOutput ''sleep 60'']"
    "signal_trace (counting_remote\<lparr>goroutine := AfterReturn\<rparr>) (Session_Run ''count'')
       = [Session_Signal ''INT'']"
    by (simp_all add: signal_trace_def sleeping_remote_def counting_remote_def SIGINT_def)
  from cancellation_interrupts [OF s x, of sleeping_remote "[]"] d1 g st
  have a: "Run sleeping_remote deadline_cmd []
       = (Returns (Some DeadlineExceeded), deadline_cmd,
          [Session_Run ''sleep 60'', Session_Signal ''INT'', Session_Close])"
    by simp
  from cancellation_interrupts [OF s x, of counting_remote "[]"] d2 g st
  have b: "Output counting_remote deadline_cmd []
       = (Returns ([], Some DeadlineExceeded), deadline_cmd,
          [Session_Output ''sleep 60'', Session_Signal ''INT'', Session_Close])"
    by simp
  from cancellation_interrupts [OF s x, of "counting_remote\<lparr>goroutine := AfterSignal\<rparr>" "[]"]
    d3 g st
  have c: "CombinedOutput (counting_remote\<lparr>goroutine := AfterSignal\<rparr>) deadline_cmd []
       = (Returns ([], Some DeadlineExceeded), deadline_cmd,
          [Session_Signal ''INT'', Session_CombinedOutput ''sleep 60'', Session_Close])"
    by simp
  from cancellation_interrupts [OF s' x', of "counting_remote\<lparr>goroutine := AfterReturn\<rparr>" "[]"]
    d4 g st'
  have d: "Run (counting_remote\<lparr>goroutine := AfterReturn\<rparr>) cancelled_cmd []
       = (Returns (Some Canceled), cancelled_cmd, [Session_Signal ''INT'', Session_Close])"
    by simp
  from s x n a f b c s' x' d show ?thesis
    by simp
qed

lemma ReadLine_long_line:
  "ReadLine e long_line
     = Line (replicate 4096 (CHR ''a'')) True (replicate 904 (CHR ''a'') @ [LF])"
  by (simp add: ReadLine_def long_line_def defaultBufSize_def LF_def CR_def)

lemma ReadLine_long_line_rest:
  "ReadLine e (replicate 904 (CHR ''a'') @ [LF]) = Line (replicate 904 (CHR ''a'')) False []"
proof -
  have "takeWhile (\<lambda>b. b \<noteq> LF) (replicate 904 (CHR ''a'') @ [LF]) = replicate 904 (CHR ''a'')"
    by (subst takeWhile_append2) (auto simp: LF_def)
  then show ?thesis
    by (simp add: ReadLine_def defaultBufSize_def LF_def CR_def)
qed

lemma ReadLine_at_end: "ReadLine (EndsWith err) [] = Failed err"
  by (simp add: ReadLine_def defaultBufSize_def)

lemma read_loop_long_line:
  "read_loop log_all (EndsWith io_EOF) [] long_line
     = (StreamDone, [replicate 4096 (CHR ''a''), replicate 904 (CHR ''a'')])"
  by (simp add: read_loop.simps ReadLine_long_line ReadLine_long_line_rest ReadLine_at_end
      log_all_def)

text \<open>
  Claim C7: \<open>OutputPipe\<close> calls the handler once per line of the remote standard output.
  The code does not: the loop hands over every result of \<^verbatim>\<open>ReadLine\<close> and ignores
  \<^verbatim>\<open>isPrefix\<close>, so a line that does not fit the reader's buffer of 4096 bytes reaches the
  handler in pieces. Here the process prints one line of 5000 bytes and the handler is called
  twice, with the first 4096 bytes and with the remaining 904.
\<close>

theorem OutputPipe_splits_long_line:
  "fst (stdout long_line_remote [Session_StdoutPipe, Session_Start ''count''])
     = replicate 5000 (CHR ''a'') @ [LF]
   \<and> OutputPipe long_line_remote (newCommand (Some 1) ''count'' []) log_all []
     = (Returns None, [replicate 4096 (CHR ''a''), replicate 904 (CHR ''a'')],
        newCommand (Some 1) ''count'' [],
        [Session_StdoutPipe, Session_Start ''count'', Session_Wait, Session_Close])"
proof -
  have "fst (stdout long_line_remote [Session_StdoutPipe, Session_Start ''count''])
          = replicate 5000 (CHR ''a'') @ [LF]"
    by (simp add: long_line_remote_def long_line_def)
  moreover have "OutputPipe long_line_remote (newCommand (Some 1) ''count'' []) log_all []
     = (Returns None, [replicate 4096 (CHR ''a''), replicate 904 (CHR ''a'')],
        newCommand (Some 1) ''count'' [],
        [Session_StdoutPipe, Session_Start ''count'', Session_Wait, Session_Close])"
    by (simp add: OutputPipe_def read_loop_long_line String_def newCommand_def
        long_line_remote_def counting_remote_def Let_def)
  ultimately show ?thesis ..
qed

lemma ReadLine_short_line:
  assumes "fits l"
  shows "ReadLine e (l @ LF # rest) = Line (chomp l) False rest"
proof -
  from assms have n: "LF \<notin> set l" and s: "length l < defaultBufSize"
    by (simp_all add: fits_def)
  have "LF \<in> set (take defaultBufSize (l @ LF # rest))"
  proof -
    from s obtain m where "defaultBufSize - length l = Suc m"
      by (cases "defaultBufSize - length l") auto
    with s show ?thesis by simp
  qed
  moreover have "takeWhile (\<lambda>b. b \<noteq> LF) (l @ LF # rest) = l"
    using n by (subst takeWhile_append2) auto
  ultimately show ?thesis
    by (simp add: ReadLine_def chomp_def)
qed

lemma read_loop_short_lines:
  assumes "list_all fits ls"
  shows "read_loop fn (EndsWith err) seen (wire ls) = deliver fn seen (map chomp ls)"
  using assms
proof (induction ls arbitrary: seen)
  case Nil
  show ?case
    by (subst read_loop.simps) (simp add: wire_def ReadLine_def defaultBufSize_def)
next
  case (Cons l ls)
  then have f: "fits l" and r: "list_all fits ls"
    by simp_all
  have w: "wire (l # ls) = l @ LF # wire ls"
    by (simp add: wire_def)
  show ?case
    by (subst read_loop.simps)
       (simp add: w ReadLine_short_line [OF f] Cons.IH [OF r] split: option.splits)
qed

text \<open>
  Beyond the claims, the part of \<open>OutputPipe\<close> that works as described: when the pipe and
  the start succeed and every line of the remote output fits the reader's buffer, the handler
  is called once per line, in order, with the line without its end-of-line bytes; the first
  error of the handler is returned at once, without a call of \<^verbatim>\<open>Wait\<close>; and when the handler
  accepts every line, \<open>OutputPipe\<close> waits for the remote exit and returns what \<^verbatim>\<open>Wait\<close>
  returns.
\<close>

theorem OutputPipe_short_lines:
  assumes "session c = Some s"
    and "snd (reply R w Session_StdoutPipe) = None"
    and "snd (reply R (w @ [Session_StdoutPipe]) (Session_Start (String c))) = None"
    and "stdout R (w @ [Session_StdoutPipe, Session_Start (String c)]) = (wire ls, EndsWith err)"
    and "list_all fits ls"
  shows "OutputPipe R c fn w =
          (case deliver fn [] (map chomp ls) of
             (HandlerFailed e, seen) \<Rightarrow>
               (Returns (Some e), seen, c,
                w @ [Session_StdoutPipe, Session_Start (String c), Session_Close])
           | (LoopHangs, seen) \<Rightarrow>
               (Blocks, seen, c, w @ [Session_StdoutPipe, Session_Start (String c)])
           | (StreamDone, seen) \<Rightarrow>
               (case completes R (w @ [Session_StdoutPipe, Session_Start (String c)])
                       Session_Wait of
                  None \<Rightarrow>
                    (Blocks, seen, c,
                     w @ [Session_StdoutPipe, Session_Start (String c), Session_Wait])
                | Some t \<Rightarrow>
                    (Returns (snd (reply R (w @ [Session_StdoutPipe, Session_Start (String c)])
                                     Session_Wait)), seen, c,
                     w @ [Session_StdoutPipe, Session_Start (String c), Session_Wait,
                          Session_Close])))"
  using assms
  by (auto simp: OutputPipe_def Let_def read_loop_short_lines
      split: prod.splits loop_exit.splits option.splits)

theorem OutputPipe_short_lines_witness:
  "session echo_cmd = Some 1
   \<and> stdout counting_remote [Session_StdoutPipe, Session_Start ''echo Hello, world!'']
       = (wire [''1'', ''2'', ''3'', ''4''], EndsWith io_EOF)
   \<and> list_all fits [''1'', ''2'', ''3'', ''4'']
   \<and> OutputPipe counting_remote echo_cmd log_all []
       = (Returns None, [''1'', ''2'', ''3'', ''4''], echo_cmd,
          [Session_StdoutPipe, Session_Start ''echo Hello, world!'', Session_Wait,
           Session_Close])
   \<and> OutputPipe counting_remote echo_cmd
        (\<lambda>seen line. if line = ''3'' then Some (Foreign ''stop'') else None) []
       = (Returns (Some (Foreign ''stop'')), [''1'', ''2'', ''3''], echo_cmd,
          [Session_StdoutPipe, Session_Start ''echo Hello, world!'', Session_Close])"
proof -
  have s: "session echo_cmd = Some 1" and st: "String echo_cmd = ''echo Hello, world!''"
    by (simp_all add: echo_cmd_def newCommand_def String_def)
  have o: "stdout counting_remote [Session_StdoutPipe, Session_Start ''echo Hello, world!'']
             = (wire [''1'', ''2'', ''3'', ''4''], EndsWith io_EOF)"
    by (simp add: counting_remote_def counting_def wire_def)
  have f: "list_all fits [''1'', ''2'', ''3'', ''4'']"
    by (simp add: fits_def defaultBufSize_def LF_def)
  have r: "snd (reply counting_remote [] Session_StdoutPipe) = None"
    "snd (reply counting_remote ([] @ [Session_StdoutPipe]) (Session_Start (String echo_cmd)))
       = None"
    "completes counting_remote [Session_StdoutPipe, Session_Start ''echo Hello, world!'']
       Session_Wait = Some 5"
    "snd (reply counting_remote [Session_StdoutPipe, Session_Start ''echo Hello, world!'']
            Session_Wait) = None"
    by (simp_all add: counting_remote_def)
  have c: "map chomp [''1'', ''2'', ''3'', ''4''] = [''1'', ''2'', ''3'', ''4'']"
    by (simp add: chomp_def CR_def)
  from OutputPipe_short_lines [of echo_cmd 1 counting_remote "[]" "[''1'', ''2'', ''3'', ''4'']"
         io_EOF log_all]
       OutputPipe_short_lines [of echo_cmd 1 counting_remote "[]" "[''1'', ''2'', ''3'', ''4'']"
         io_EOF "\<lambda>seen line. if line = ''3'' then Some (Foreign ''stop'') else None"]
       s st o f r c
  show ?thesis by (simp add: log_all_def)
qed

end
